theory Spec2Isabelle
  imports Complex_Main "HOL-Library.Word"
begin

section \<open>Cash-flow projection and transfer advisory engine (src/src/simulator.py)\<close>

text \<open>
  The three functions of \<^verbatim>\<open>simulator.py\<close> are embedded as HOL functions:
  \<^verbatim>\<open>run_simulation_engine\<close>, \<^verbatim>\<open>calculate_intelligent_transfer\<close> and
  \<^verbatim>\<open>generate_simulation_report\<close>. A data frame is the list of its rows, in row order.

  Conventions of the embedding:
  \<^item> the numbers of a run (amounts and balances) have a type \<open>'n\<close>, and every operation the
    source applies to them (\<^verbatim>\<open>+\<close>, \<^verbatim>\<open>-\<close>, \<^verbatim>\<open><\<close>, \<^verbatim>\<open><=\<close>, \<^verbatim>\<open>Series.sum()\<close>, \<^verbatim>\<open>Series.min()\<close>,
    the \<^verbatim>\<open>.2f\<close> format) is taken from a record of operations, the arithmetic of the run.
    The functions are written once for every arithmetic; two arithmetics are given below,
    the exact one on rationals and the one of an int64 column, which wraps;
  \<^item> the columns are typed: a transaction row carries a calendar date and a number, as the
    frame does after \<^verbatim>\<open>pd.to_datetime\<close> and \<^verbatim>\<open>pd.to_numeric\<close>; a value that these
    conversions reject is not a row of the model, and the time of day of a timestamp,
    dropped by \<^verbatim>\<open>.dt.date\<close> at line 40, is left out;
  \<^item> a calendar date is a \<^verbatim>\<open>datetime.date\<close>: adding days to it raises \<^verbatim>\<open>OverflowError\<close>
    when the result is past 31 December 9999. This is the only exception the functions
    can raise on typed rows: they contain no \<^verbatim>\<open>raise\<close> statement of their own.
\<close>

subsection \<open>Calendar dates\<close>

text \<open>\<^verbatim>\<open>datetime.date\<close>: the attributes \<^verbatim>\<open>year\<close>, \<^verbatim>\<open>month\<close>, \<^verbatim>\<open>day\<close>.\<close>

record date =
  year :: nat
  month :: nat
  day :: nat

definition is_leap :: "nat \<Rightarrow> bool" where
  "is_leap y =
     (if y mod 400 = 0 then True else if y mod 100 = 0 then False else y mod 4 = 0)"

definition days_in_month :: "nat \<Rightarrow> nat \<Rightarrow> nat" where
  "days_in_month y m =
     (if m = 2 then (if is_leap y then 29 else 28)
      else if m = 4 \<or> m = 6 \<or> m = 9 \<or> m = 11 then 30
      else 31)"

text \<open>The calendar day after \<open>d\<close>.\<close>

definition next_date :: "date \<Rightarrow> date" where
  "next_date d =
     (if day d < days_in_month (year d) (month d) then d\<lparr>day := day d + 1\<rparr>
      else if month d < 12 then \<lparr>year = year d, month = month d + 1, day = 1\<rparr>
      else \<lparr>year = year d + 1, month = 1, day = 1\<rparr>)"

text \<open>
  The calendar day \<open>n\<close> days after \<open>d\<close>, in the proleptic Gregorian calendar: the day
  whose ordinal is the ordinal of \<open>d\<close> plus \<open>n\<close>. This is calendar arithmetic only; the
  range check of the library is in \<open>date_add_days\<close> below, and the engine adds days
  through that function alone.
\<close>

primrec plus_days :: "date \<Rightarrow> nat \<Rightarrow> date" where
  "plus_days d 0 = d"
| "plus_days d (Suc n) = next_date (plus_days d n)"

datatype error = OverflowError

text \<open>
  \<^verbatim>\<open>d + timedelta(days=n)\<close> for a day count \<open>n \<ge> 0\<close> (line 33): the library adds \<open>n\<close> to the
  ordinal of \<open>d\<close> and raises \<^verbatim>\<open>OverflowError\<close> when the sum is past the ordinal of
  \<^verbatim>\<open>date.max\<close>, 31 December 9999.
\<close>

definition date_add_days :: "date \<Rightarrow> nat \<Rightarrow> error + date" where
  "date_add_days d n =
     (if year (plus_days d n) \<le> 9999 then Inr (plus_days d n) else Inl OverflowError)"

subsection \<open>The arithmetic of a run\<close>

text \<open>
  The operations of the source on numbers, as a record. \<open>series_sum\<close> is \<^verbatim>\<open>Series.sum()\<close>
  (line 51) and \<open>series_min\<close> is \<^verbatim>\<open>Series.min()\<close> on a series that is not empty (line 113);
  \<open>format_2f\<close> is the format \<^verbatim>\<open>f"{x:.2f}"\<close> (lines 56, 68 and 70).
\<close>

record 'n arith =
  num_zero :: 'n
  num_add :: "'n \<Rightarrow> 'n \<Rightarrow> 'n"
  num_sub :: "'n \<Rightarrow> 'n \<Rightarrow> 'n"
  num_neg :: "'n \<Rightarrow> 'n"
  num_lt :: "'n \<Rightarrow> 'n \<Rightarrow> bool"
  num_le :: "'n \<Rightarrow> 'n \<Rightarrow> bool"
  series_sum :: "'n list \<Rightarrow> 'n"
  series_min :: "'n list \<Rightarrow> 'n"
  format_2f :: "'n \<Rightarrow> string"

text \<open>
  Python's \<^verbatim>\<open>max(0, x)\<close> (lines 116 and 120): the built-in keeps its first argument and
  replaces it by \<open>x\<close> when \<^verbatim>\<open>x > 0\<close> holds.
\<close>

definition py_max0 :: "'n arith \<Rightarrow> 'n \<Rightarrow> 'n" where
  "py_max0 A x = (if num_lt A (num_zero A) x then x else num_zero A)"

subsection \<open>Formatting\<close>

text \<open>
  \<^verbatim>\<open>f"{x:.2f}"\<close> on an exact value: the sign, the integer digits, a point and two
  decimals, the value rounded to the nearest hundredth with ties to the even neighbour.
\<close>

definition digit_char :: "nat \<Rightarrow> char" where
  "digit_char n = ''0123456789'' ! n"

fun digits :: "nat \<Rightarrow> string" where
  "digits n = (if n < 10 then [digit_char n] else digits (n div 10) @ [digit_char (n mod 10)])"

declare digits.simps [simp del]

definition round_half_even :: "rat \<Rightarrow> int" where
  "round_half_even x =
     (let f = \<lfloor>x\<rfloor>; r = x - of_int f
      in if r < 1 / 2 then f
         else if 1 / 2 < r then f + 1
         else if even f then f else f + 1)"

definition fmt2 :: "rat \<Rightarrow> string" where
  "fmt2 x =
     (let cents = nat (round_half_even (\<bar>x\<bar> * 100))
      in (if x < 0 then ''-'' else '''')
         @ digits (cents div 100) @ ''.''
         @ [digit_char (cents mod 100 div 10), digit_char (cents mod 10)])"

text \<open>\<^verbatim>\<open>sep.join(parts)\<close>.\<close>

fun join :: "string \<Rightarrow> string list \<Rightarrow> string" where
  "join sep [] = []"
| "join sep [p] = p"
| "join sep (p # q # ps) = p @ sep @ join sep (q # ps)"

subsection \<open>Two arithmetics\<close>

text \<open>
  Exact arithmetic on rationals: no rounding and no bound. This is the arithmetic of the
  specification (exact decimals); the floating-point columns of pandas agree with it as
  long as every value and every partial sum is a number a float holds exactly.
\<close>

definition exact :: "rat arith" where
  "exact =
     \<lparr>num_zero = 0, num_add = (+), num_sub = (-), num_neg = uminus,
      num_lt = (<), num_le = (\<le>), series_sum = sum_list,
      series_min = (\<lambda>xs. fold min (tl xs) (hd xs)), format_2f = fmt2\<rparr>"

text \<open>
  The arithmetic of a run whose amounts column is of dtype int64 (what \<^verbatim>\<open>pd.to_numeric\<close>
  gives when every amount is written as an integer) and whose balances are integers:
  64-bit two's complement numbers. Sums and differences wrap, comparisons are signed, and a
  number is formatted by its signed value.
\<close>

definition int64 :: "64 word arith" where
  "int64 =
     \<lparr>num_zero = 0, num_add = (+), num_sub = (-), num_neg = uminus,
      num_lt = word_sless, num_le = word_sle, series_sum = sum_list,
      series_min = (\<lambda>xs. fold (\<lambda>x m. if word_sless x m then x else m) (tl xs) (hd xs)),
      format_2f = (\<lambda>w. fmt2 (of_int (sint w)))\<rparr>"

subsection \<open>Rows of the ledger and of the simulation result\<close>

text \<open>
  A row of \<^verbatim>\<open>transactions_df\<close>, with the columns the source reads and writes
  (\<^verbatim>\<open>date\<close>, \<^verbatim>\<open>amount\<close>, \<^verbatim>\<open>description\<close>, \<^verbatim>\<open>category\<close>, \<^verbatim>\<open>forecast\<close>). The date column is
  named \<open>tx_date\<close> here, since the result rows have a \<^verbatim>\<open>date\<close> column of their own.
\<close>

record 'n transaction =
  tx_date :: date
  amount :: 'n
  description :: string
  category :: string
  forecast :: string

datatype alert = OK | BELOW_TARGET

text \<open>A row of the result frame: the dictionary appended to \<^verbatim>\<open>results\<close> on each day.\<close>

record 'n daily_projection =
  date :: date
  start_balance :: 'n
  transactions_summary :: string
  net_change :: 'n
  end_balance :: 'n
  alert_type :: alert

subsection \<open>The projection engine: \<^verbatim>\<open>run_simulation_engine\<close>\<close>

text \<open>The rows of the frame dated \<open>current_date\<close>, in frame order (line 40).\<close>

definition day_transactions_of :: "'n transaction list \<Rightarrow> date \<Rightarrow> 'n transaction list" where
  "day_transactions_of transactions_df current_date =
     filter (\<lambda>tx. tx_date tx = current_date) transactions_df"

text \<open>One fragment of the day's summary (line 56).\<close>

definition summary_part :: "'n arith \<Rightarrow> 'n transaction \<Rightarrow> string" where
  "summary_part A tx = description tx @ '': '' @ format_2f A (amount tx)"

text \<open>The system note of a day below target (lines 68 and 70).\<close>

definition add_funds_note :: "'n arith \<Rightarrow> 'n \<Rightarrow> string" where
  "add_funds_note A shortfall = ''SYSTEM: Add funds ('' @ format_2f A shortfall @ '')''"

text \<open>
  The net change and the summary of a day before the alert rule (lines 43 to 57): the
  literal \<^verbatim>\<open>0\<close> and the empty string on a day without transactions, else
  \<^verbatim>\<open>day_transactions['amount'].sum()\<close> and the fragments joined by a comma and a space.
\<close>

definition day_net_change_of :: "'n arith \<Rightarrow> 'n transaction list \<Rightarrow> 'n" where
  "day_net_change_of A day_transactions =
     (if day_transactions = [] then num_zero A
      else series_sum A (map amount day_transactions))"

definition day_summary_of :: "'n arith \<Rightarrow> 'n transaction list \<Rightarrow> string" where
  "day_summary_of A day_transactions =
     (if day_transactions = [] then ''''
      else join '', '' (map (summary_part A) day_transactions))"

text \<open>
  The body of the day loop after line 33 (lines 34 to 85): from the date of the day and the
  running balance to the row appended to \<^verbatim>\<open>results\<close>.
\<close>

definition simulate_day ::
  "'n arith \<Rightarrow> 'n \<Rightarrow> 'n transaction list \<Rightarrow> date \<Rightarrow> 'n \<Rightarrow> 'n daily_projection" where
  "simulate_day A target_balance transactions_df current_date current_balance =
     (let day_start_balance = current_balance;
          day_transactions = day_transactions_of transactions_df current_date;
          day_net_change = day_net_change_of A day_transactions;
          transactions_summary = day_summary_of A day_transactions;
          day_end_balance = num_add A day_start_balance day_net_change
      in if num_lt A day_end_balance target_balance then
           (let shortfall = num_sub A target_balance day_end_balance
            in \<lparr>date = current_date,
                start_balance = day_start_balance,
                transactions_summary =
                  (if transactions_summary \<noteq> []
                   then transactions_summary @ '', '' @ add_funds_note A shortfall
                   else add_funds_note A shortfall),
                net_change = day_net_change,
                end_balance = day_end_balance,
                alert_type = BELOW_TARGET\<rparr>)
         else
           \<lparr>date = current_date,
            start_balance = day_start_balance,
            transactions_summary = transactions_summary,
            net_change = day_net_change,
            end_balance = day_end_balance,
            alert_type = OK\<rparr>)"

text \<open>
  The \<^verbatim>\<open>for day_offset in range(window_days)\<close> loop, over the list of offsets still to
  run; the state is the pair of \<^verbatim>\<open>current_balance\<close> and \<^verbatim>\<open>results\<close>. Line 33 comes first
  in the body: when it raises, the loop and the function are left with the exception and
  no frame is returned.
\<close>

fun engine_loop ::
  "'n arith \<Rightarrow> 'n \<Rightarrow> 'n transaction list \<Rightarrow> date \<Rightarrow> nat list \<Rightarrow>
   'n \<times> 'n daily_projection list \<Rightarrow> error + 'n \<times> 'n daily_projection list" where
  "engine_loop A target_balance transactions_df start_date [] st = Inr st"
| "engine_loop A target_balance transactions_df start_date (day_offset # rest)
     (current_balance, results) =
     (case date_add_days start_date day_offset of
        Inl e \<Rightarrow> Inl e
      | Inr current_date \<Rightarrow>
          (let row = simulate_day A target_balance transactions_df current_date current_balance
           in engine_loop A target_balance transactions_df start_date rest
                (end_balance row, results @ [row])))"

text \<open>
  \<^verbatim>\<open>window_days\<close> is a Python integer: \<^verbatim>\<open>range(window_days)\<close> is empty when it is zero or
  negative. The source has no check on it. The parameter \<^verbatim>\<open>start_balance\<close> is written
  \<open>start_bal\<close>, the name being taken by the column of the result.
\<close>

definition run_simulation_engine ::
  "'n arith \<Rightarrow> 'n \<Rightarrow> 'n \<Rightarrow> 'n transaction list \<Rightarrow> date \<Rightarrow> int \<Rightarrow>
   error + 'n daily_projection list" where
  "run_simulation_engine A start_bal target_balance transactions_df start_date window_days =
     (case engine_loop A target_balance transactions_df start_date [0..<nat window_days]
             (start_bal, []) of
        Inl e \<Rightarrow> Inl e
      | Inr (current_balance, results) \<Rightarrow> Inr results)"

subsection \<open>The transfer advisor: \<^verbatim>\<open>calculate_intelligent_transfer\<close>\<close>

text \<open>
  \<^verbatim>\<open>future_30_day_balances.min()\<close>: the least value of the series. On an empty series
  pandas raises nothing and returns NaN, written \<open>None\<close> here.
\<close>

fun lowest_of :: "'n arith \<Rightarrow> 'n list \<Rightarrow> 'n option" where
  "lowest_of A [] = None"
| "lowest_of A (x # xs) = Some (series_min A (x # xs))"

text \<open>
  Lines 106 to 122, with a count of the evaluations of \<^verbatim>\<open>future_30_day_balances.min()\<close>
  beside the returned amount. The count is not a value of the source: it records that
  line 113 was run. With NaN for the lowest balance, \<^verbatim>\<open>target_balance - nan\<close> is NaN and
  Python's \<^verbatim>\<open>max(0, nan)\<close> is its first argument \<open>0\<close>, every comparison with NaN being
  false: this is the \<open>None\<close> case of the shortfall.
\<close>

definition calculate_intelligent_transfer_counted ::
  "'n arith \<Rightarrow> 'n \<Rightarrow> 'n \<Rightarrow> 'n list \<Rightarrow> 'n \<times> nat" where
  "calculate_intelligent_transfer_counted A month_end_balance target_balance
     future_30_day_balances =
     (let surplus = num_sub A month_end_balance target_balance
      in if num_le A surplus (num_zero A) then (num_zero A, 0)
         else
           (let lowest_future_balance = lowest_of A future_30_day_balances;
                shortfall =
                  (case lowest_future_balance of
                     None \<Rightarrow> num_zero A
                   | Some lowest \<Rightarrow> py_max0 A (num_sub A target_balance lowest));
                recommended_transfer = py_max0 A (num_sub A surplus shortfall)
            in (recommended_transfer, 1)))"

text \<open>The value the function returns.\<close>

definition calculate_intelligent_transfer :: "'n arith \<Rightarrow> 'n \<Rightarrow> 'n \<Rightarrow> 'n list \<Rightarrow> 'n" where
  "calculate_intelligent_transfer A month_end_balance target_balance future_30_day_balances =
     fst (calculate_intelligent_transfer_counted A month_end_balance target_balance
            future_30_day_balances)"

subsection \<open>The orchestrator: \<^verbatim>\<open>generate_simulation_report\<close>\<close>

text \<open>
  The local variables of the function that the scan loop reads and assigns. The field
  \<open>engine_runs\<close> is not a variable of the source: it counts the calls of
  \<^verbatim>\<open>run_simulation_engine\<close> made so far.
\<close>

record 'n report_state =
  sim_results_df :: "'n daily_projection list"
  recommended_transfer :: 'n
  transactions_df :: "'n transaction list"
  engine_runs :: nat

text \<open>The synthetic row built at lines 180 to 186.\<close>

definition virtual_tx :: "'n arith \<Rightarrow> date \<Rightarrow> 'n \<Rightarrow> 'n transaction" where
  "virtual_tx A next_month_first amt =
     \<lparr>tx_date = next_month_first, amount = num_neg A amt, description = ''Surplus Transfer'',
      category = ''System'', forecast = ''1''\<rparr>"

text \<open>
  The \<^verbatim>\<open>for i in range(len(sim_results_df) - 1)\<close> loop (lines 156 to 197), over the
  indices still to visit. The \<^verbatim>\<open>break\<close> of line 197 stands inside
  \<^verbatim>\<open>if recommended_transfer > 0\<close>: only that branch leaves the loop, every other path
  goes on to the next index. An exception of the second run of the engine (line 192)
  leaves the function. The slice \<^verbatim>\<open>iloc[i+1:i+1+look_ahead_days]\<close> is
  \<open>take look_ahead_days (drop (i + 1) ...)\<close>. The function is run on the indices below
  \<^verbatim>\<open>len(sim_results_df) - 1\<close> only, so rows \<open>i\<close> and \<open>i + 1\<close> exist at every visit.
\<close>

fun scan_month_ends ::
  "'n arith \<Rightarrow> 'n \<Rightarrow> 'n \<Rightarrow> date \<Rightarrow> int \<Rightarrow> nat list \<Rightarrow> 'n report_state \<Rightarrow>
   error + 'n report_state" where
  "scan_month_ends A start_bal target_balance start_date window_days [] st = Inr st"
| "scan_month_ends A start_bal target_balance start_date window_days (i # rest) st =
     (let current_day = date (sim_results_df st ! i);
          next_day = date (sim_results_df st ! (i + 1))
      in if month current_day \<noteq> month next_day then
           (let month_end_balance = end_balance (sim_results_df st ! i);
                look_ahead_days = min 30 (length (sim_results_df st) - i - 1);
                future_balances =
                  map end_balance (take look_ahead_days (drop (i + 1) (sim_results_df st)));
                amt = calculate_intelligent_transfer A month_end_balance target_balance
                        future_balances;
                st1 = st\<lparr>recommended_transfer := amt\<rparr>
            in if num_lt A (num_zero A) amt then
                 (let txs = transactions_df st1 @ [virtual_tx A next_day amt]
                  in case run_simulation_engine A start_bal target_balance txs start_date
                            window_days of
                       Inl e \<Rightarrow> Inl e
                     | Inr sim \<Rightarrow>
                         Inr (st1\<lparr>transactions_df := txs, sim_results_df := sim,
                                  engine_runs := engine_runs st1 + 1\<rparr>))
               else scan_month_ends A start_bal target_balance start_date window_days rest st1)
         else scan_month_ends A start_bal target_balance start_date window_days rest st)"

text \<open>
  The state of the function when the loop is left: the first run of the engine
  (line 150), \<^verbatim>\<open>recommended_transfer = 0.0\<close> (line 153), then the scan.
\<close>

definition report_final_state ::
  "'n arith \<Rightarrow> 'n \<Rightarrow> 'n \<Rightarrow> 'n transaction list \<Rightarrow> date \<Rightarrow> int \<Rightarrow> error + 'n report_state" where
  "report_final_state A start_bal target_balance txs start_date window_days =
     (case run_simulation_engine A start_bal target_balance txs start_date window_days of
        Inl e \<Rightarrow> Inl e
      | Inr sim \<Rightarrow>
          scan_month_ends A start_bal target_balance start_date window_days
            [0..<length sim - 1]
            \<lparr>sim_results_df = sim, recommended_transfer = num_zero A, transactions_df = txs,
             engine_runs = 1\<rparr>)"

text \<open>The returned pair (line 199).\<close>

definition generate_simulation_report ::
  "'n arith \<Rightarrow> 'n \<Rightarrow> 'n \<Rightarrow> 'n transaction list \<Rightarrow> date \<Rightarrow> int \<Rightarrow>
   error + 'n daily_projection list \<times> 'n" where
  "generate_simulation_report A start_bal target_balance txs start_date window_days =
     (case report_final_state A start_bal target_balance txs start_date window_days of
        Inl e \<Rightarrow> Inl e
      | Inr st \<Rightarrow> Inr (sim_results_df st, recommended_transfer st))"

subsection \<open>Frames as objects: what the two functions write\<close>

text \<open>
  The sections above pass a frame by value. To say which frame objects a call writes, the
  frames are put in a store: an address is an index into the list of all frames, and a
  variable of the source holds an address. The operations the source applies to a frame
  of transactions are
  \<^item> \<^verbatim>\<open>df.copy()\<close>, a new object with the same rows (lines 26 and 140);
  \<^item> \<^verbatim>\<open>pd.concat([df, virtual_tx], ignore_index=True)\<close>, a new object with the rows of both
    (line 189);
  \<^item> \<^verbatim>\<open>df[column] = converted\<close>, a write into the object itself (lines 144 and 147).
  The frames of a single day (lines 40 and 48) are new objects made by a boolean selection
  and a copy; line 50 writes into such an object only, and they are left out of the store.
  A call returns the store it leaves behind, also when it raises.
\<close>

type_synonym 'n store = "'n transaction list list"

definition df_copy :: "'n store \<Rightarrow> nat \<Rightarrow> 'n store \<times> nat" where
  "df_copy s a = (s @ [s ! a], length s)"

definition df_concat :: "'n store \<Rightarrow> nat \<Rightarrow> 'n transaction list \<Rightarrow> 'n store \<times> nat" where
  "df_concat s a rows = (s @ [s ! a @ rows], length s)"

definition df_set_column ::
  "'n store \<Rightarrow> nat \<Rightarrow> ('n transaction list \<Rightarrow> 'n transaction list) \<Rightarrow> 'n store" where
  "df_set_column s a conv = s[a := conv (s ! a)]"

text \<open>
  \<^verbatim>\<open>run_simulation_engine\<close> called with the address \<open>a\<close> of the caller's frame: line 26
  rebinds the parameter to a copy, and the day loop reads that copy.
\<close>

definition run_simulation_engine_on ::
  "'n arith \<Rightarrow> 'n store \<Rightarrow> 'n \<Rightarrow> 'n \<Rightarrow> nat \<Rightarrow> date \<Rightarrow> int \<Rightarrow>
   'n store \<times> (error + 'n daily_projection list)" where
  "run_simulation_engine_on A s start_bal target_balance a start_date window_days =
     (let (s1, c) = df_copy s a
      in (s1, run_simulation_engine A start_bal target_balance (s1 ! c) start_date
                window_days))"

text \<open>
  The variables of \<^verbatim>\<open>generate_simulation_report\<close> over the store: \<open>transactions_ref\<close> is
  the address held by the variable \<^verbatim>\<open>transactions_df\<close>, \<open>results\<close> is
  \<^verbatim>\<open>sim_results_df\<close> and \<open>transfer\<close> is \<^verbatim>\<open>recommended_transfer\<close>; \<open>raised\<close> holds the
  exception with which the function was left, if any.
\<close>

record 'n frame_state =
  frames :: "'n store"
  transactions_ref :: nat
  results :: "'n daily_projection list"
  transfer :: 'n
  raised :: "error option"

text \<open>The scan loop of lines 156 to 197 again, with the frames in the store.\<close>

fun scan_month_ends_on ::
  "'n arith \<Rightarrow> 'n \<Rightarrow> 'n \<Rightarrow> date \<Rightarrow> int \<Rightarrow> nat list \<Rightarrow> 'n frame_state \<Rightarrow> 'n frame_state" where
  "scan_month_ends_on A start_bal target_balance start_date window_days [] st = st"
| "scan_month_ends_on A start_bal target_balance start_date window_days (i # rest) st =
     (let current_day = date (results st ! i);
          next_day = date (results st ! (i + 1))
      in if month current_day \<noteq> month next_day then
           (let month_end_balance = end_balance (results st ! i);
                look_ahead_days = min 30 (length (results st) - i - 1);
                future_balances =
                  map end_balance (take look_ahead_days (drop (i + 1) (results st)));
                amt = calculate_intelligent_transfer A month_end_balance target_balance
                        future_balances;
                st1 = st\<lparr>transfer := amt\<rparr>
            in if num_lt A (num_zero A) amt then
                 (let (s1, c) = df_concat (frames st1) (transactions_ref st1)
                                  [virtual_tx A next_day amt];
                      (s2, outcome) = run_simulation_engine_on A s1 start_bal target_balance c
                                        start_date window_days
                  in case outcome of
                       Inl e \<Rightarrow> st1\<lparr>frames := s2, transactions_ref := c, raised := Some e\<rparr>
                     | Inr sim \<Rightarrow> st1\<lparr>frames := s2, transactions_ref := c, results := sim\<rparr>)
               else scan_month_ends_on A start_bal target_balance start_date window_days rest
                      st1)
         else scan_month_ends_on A start_bal target_balance start_date window_days rest st)"

text \<open>
  \<^verbatim>\<open>generate_simulation_report\<close> called with the address \<open>a\<close> of the caller's frame. The
  column conversions \<^verbatim>\<open>pd.to_datetime\<close> and \<^verbatim>\<open>pd.to_numeric\<close> are parameters here: on the
  typed rows of this embedding they change nothing, and what matters below is which object
  their result is written into. Line 144 runs only when the date column is not yet of a
  datetime type; a conversion that returns its argument stands for the case where it is
  skipped. The returned pair is the final store and the outcome of the call: the exception
  raised, or the result frame and the recommended amount.
\<close>

definition generate_simulation_report_on ::
  "'n arith \<Rightarrow> ('n transaction list \<Rightarrow> 'n transaction list) \<Rightarrow>
   ('n transaction list \<Rightarrow> 'n transaction list) \<Rightarrow>
   'n store \<Rightarrow> 'n \<Rightarrow> 'n \<Rightarrow> nat \<Rightarrow> date \<Rightarrow> int \<Rightarrow>
   'n store \<times> (error + 'n daily_projection list \<times> 'n)" where
  "generate_simulation_report_on A to_datetime to_numeric s start_bal target_balance a
     start_date window_days =
     (let (s1, c) = df_copy s a;
          s2 = df_set_column s1 c to_datetime;
          s3 = df_set_column s2 c to_numeric;
          (s4, outcome) = run_simulation_engine_on A s3 start_bal target_balance c start_date
                            window_days
      in case outcome of
           Inl e \<Rightarrow> (s4, Inl e)
         | Inr sim \<Rightarrow>
             (let st = scan_month_ends_on A start_bal target_balance start_date window_days
                         [0..<length sim - 1]
                         \<lparr>frames = s4, transactions_ref = c, results = sim,
                          transfer = num_zero A, raised = None\<rparr>
              in (frames st,
                  case raised st of
                    Some e \<Rightarrow> Inl e
                  | None \<Rightarrow> Inr (results st, transfer st))))"

subsection \<open>Inputs used in the examples\<close>

text \<open>
  The fixture \<^verbatim>\<open>sample_sim_transactions\<close> of \<^verbatim>\<open>tests/test_simulator.py\<close> (lines 10 to 16),
  with its dates in January 2024.
\<close>

definition jan_2024 :: "nat \<Rightarrow> date" where
  "jan_2024 d = \<lparr>year = 2024, month = 1, day = d\<rparr>"

definition sample_sim_transactions :: "rat transaction list" where
  "sample_sim_transactions =
     [\<lparr>tx_date = jan_2024 2, amount = - 1500, description = ''Rent'',
       category = ''Fixed'', forecast = ''1''\<rparr>,
      \<lparr>tx_date = jan_2024 5, amount = 2500, description = ''Paycheck'',
       category = ''Revenue'', forecast = ''1''\<rparr>,
      \<lparr>tx_date = jan_2024 5, amount = - 50, description = ''Spotify'',
       category = ''Variable'', forecast = ''1''\<rparr>,
      \<lparr>tx_date = jan_2024 8, amount = - 800, description = ''Car Payment'',
       category = ''Fixed'', forecast = ''1''\<rparr>]"

text \<open>
  A window of 30 days from 31 January 2023, which holds two month ends (31 January and
  28 February), and a single inflow of 100 on 1 February.
\<close>

definition two_month_start :: date where
  "two_month_start = \<lparr>year = 2023, month = 1, day = 31\<rparr>"

definition two_month_transactions :: "rat transaction list" where
  "two_month_transactions =
     [\<lparr>tx_date = \<lparr>year = 2023, month = 2, day = 1\<rparr>, amount = 100,
       description = ''Refund'', category = ''Revenue'', forecast = ''1''\<rparr>]"

text \<open>
  The last day of \<^verbatim>\<open>datetime.date\<close>, and four deposits of \<open>2 ^ 62\<close> on one day in an int64
  column: each amount is a number of the column, their sum \<open>2 ^ 64\<close> is not.
\<close>

definition last_date :: date where
  "last_date = \<lparr>year = 9999, month = 12, day = 31\<rparr>"



subsection \<open>The rows of a run in closed form\<close>

text \<open>
  Two functions that are not in the source, used to state what the day loop computes: the
  running balance before the day at offset \<open>i\<close>, and the row of that day.
\<close>

primrec running_balance ::
  "'n arith \<Rightarrow> 'n transaction list \<Rightarrow> date \<Rightarrow> 'n \<Rightarrow> nat \<Rightarrow> 'n" where
  "running_balance A txs sd sb 0 = sb"
| "running_balance A txs sd sb (Suc i) =
     num_add A (running_balance A txs sd sb i)
       (day_net_change_of A (day_transactions_of txs (plus_days sd i)))"

definition projection_row ::
  "'n arith \<Rightarrow> 'n \<Rightarrow> 'n transaction list \<Rightarrow> date \<Rightarrow> 'n \<Rightarrow> nat \<Rightarrow> 'n daily_projection" where
  "projection_row A tb txs sd sb i =
     simulate_day A tb txs (plus_days sd i) (running_balance A txs sd sb i)"

section \<open>Properties of the calendar\<close>

lemma year_next_date: "year d \<le> year (next_date d)"
  by (simp add: next_date_def)

lemma year_plus_days_mono: "i \<le> j \<Longrightarrow> year (plus_days d i) \<le> year (plus_days d j)"
proof (induction j)
  case 0
  then show ?case by simp
next
  case (Suc j)
  show ?case
  proof (cases "i = Suc j")
    case True
    then show ?thesis by simp
  next
    case False
    with Suc.prems have "i \<le> j" by simp
    then have "year (plus_days d i) \<le> year (plus_days d j)" by (rule Suc.IH)
    also have "\<dots> \<le> year (plus_days d (Suc j))" by (simp add: year_next_date)
    finally show ?thesis .
  qed
qed

lemma date_add_days_Inr:
  "date_add_days d n = Inr r \<longleftrightarrow> year (plus_days d n) \<le> 9999 \<and> r = plus_days d n"
  by (auto simp: date_add_days_def)

lemma date_add_days_Inl:
  "date_add_days d n = Inl e \<longleftrightarrow> \<not> year (plus_days d n) \<le> 9999"
  by (cases e) (simp add: date_add_days_def)

lemma date_add_days_earlier:
  assumes "date_add_days d n = Inr r" and "i \<le> n"
  shows "date_add_days d i = Inr (plus_days d i)"
proof -
  from assms(1) have "year (plus_days d n) \<le> 9999" by (simp add: date_add_days_Inr)
  with year_plus_days_mono [OF assms(2), of d] have "year (plus_days d i) \<le> 9999" by simp
  then show ?thesis by (simp add: date_add_days_def)
qed

section \<open>Properties of the engine loop\<close>

lemma simulate_day_start: "start_balance (simulate_day A tb txs d b) = b"
  by (simp add: simulate_day_def Let_def)

lemma simulate_day_date: "date (simulate_day A tb txs d b) = d"
  by (simp add: simulate_day_def Let_def)

lemma simulate_day_net:
  "net_change (simulate_day A tb txs d b) = day_net_change_of A (day_transactions_of txs d)"
  by (simp add: simulate_day_def Let_def)

lemma simulate_day_end:
  "end_balance (simulate_day A tb txs d b) =
     num_add A b (day_net_change_of A (day_transactions_of txs d))"
  by (simp add: simulate_day_def Let_def)

lemma simulate_day_alert:
  "alert_type (simulate_day A tb txs d b) = BELOW_TARGET \<longleftrightarrow>
     num_lt A (end_balance (simulate_day A tb txs d b)) tb"
  by (simp add: simulate_day_def Let_def)

lemma simulate_day_summary:
  "transactions_summary (simulate_day A tb txs d b) =
     (let base = day_summary_of A (day_transactions_of txs d);
          e = end_balance (simulate_day A tb txs d b)
      in if num_lt A e tb then
           (if base \<noteq> [] then base @ '', '' @ add_funds_note A (num_sub A tb e)
            else add_funds_note A (num_sub A tb e))
         else base)"
  by (simp add: simulate_day_def Let_def)

lemma engine_loop_append:
  "engine_loop A tb txs sd (ks @ ks') st =
     (case engine_loop A tb txs sd ks st of
        Inl e \<Rightarrow> Inl e
      | Inr st' \<Rightarrow> engine_loop A tb txs sd ks' st')"
proof (induction ks arbitrary: st)
  case Nil
  show ?case by simp
next
  case (Cons k ks)
  obtain b rs where st: "st = (b, rs)" by (cases st)
  show ?case unfolding st by (simp add: Let_def Cons.IH split: sum.split)
qed

lemma engine_loop_snoc:
  "engine_loop A tb txs sd (ks @ [k]) st =
     (case engine_loop A tb txs sd ks st of
        Inl e \<Rightarrow> Inl e
      | Inr (b, rs) \<Rightarrow>
          (case date_add_days sd k of
             Inl e \<Rightarrow> Inl e
           | Inr d \<Rightarrow> Inr (end_balance (simulate_day A tb txs d b),
                            rs @ [simulate_day A tb txs d b])))"
  by (simp add: engine_loop_append Let_def split: sum.split prod.split)

text \<open>The loop in closed form: it raises when a day of the window is past the last date,
  and otherwise returns the running balance and the rows of all days.\<close>

lemma engine_loop_closed:
  "engine_loop A tb txs sd [0..<n] (sb, []) =
     (if \<forall>i<n. year (plus_days sd i) \<le> 9999
      then Inr (running_balance A txs sd sb n, map (projection_row A tb txs sd sb) [0..<n])
      else Inl OverflowError)"
proof (induction n)
  case 0
  show ?case by simp
next
  case (Suc n)
  show ?case
  proof (cases "\<forall>i<n. year (plus_days sd i) \<le> 9999")
    case False
    then have neg: "\<not> (\<forall>i<Suc n. year (plus_days sd i) \<le> 9999)"
      using less_Suc_eq by blast
    from False Suc.IH
    have "engine_loop A tb txs sd [0..<n] (sb, []) = Inl OverflowError" by simp
    then have "engine_loop A tb txs sd [0..<Suc n] (sb, []) = Inl OverflowError"
      by (simp add: engine_loop_snoc)
    then show ?thesis unfolding if_not_P [OF neg] .
  next
    case True
    note before = this
    show ?thesis
    proof (cases "year (plus_days sd n) \<le> 9999")
      case True
      with before have all: "\<forall>i<Suc n. year (plus_days sd i) \<le> 9999"
        using less_Suc_eq by auto
      from True have "date_add_days sd n = Inr (plus_days sd n)"
        by (simp add: date_add_days_def)
      with before Suc.IH all show ?thesis
        by (simp add: engine_loop_snoc projection_row_def simulate_day_end
              del: plus_days.simps)
    next
      case False
      then have "\<not> (\<forall>i<Suc n. year (plus_days sd i) \<le> 9999)" by blast
      moreover from False have "date_add_days sd n = Inl OverflowError"
        by (simp add: date_add_days_def)
      ultimately show ?thesis
        using before Suc.IH by (simp add: engine_loop_snoc del: plus_days.simps)
    qed
  qed
qed

lemma window_in_range:
  "(\<forall>i<n. year (plus_days sd i) \<le> 9999) \<longleftrightarrow> n = 0 \<or> year (plus_days sd (n - 1)) \<le> 9999"
proof (cases n)
  case 0
  then show ?thesis by simp
next
  case (Suc m)
  have "(\<forall>i<Suc m. year (plus_days sd i) \<le> 9999) \<longleftrightarrow> year (plus_days sd m) \<le> 9999"
  proof
    assume "\<forall>i<Suc m. year (plus_days sd i) \<le> 9999"
    then show "year (plus_days sd m) \<le> 9999" by blast
  next
    assume last: "year (plus_days sd m) \<le> 9999"
    show "\<forall>i<Suc m. year (plus_days sd i) \<le> 9999"
    proof (intro allI impI)
      fix i assume "i < Suc m"
      then have "i \<le> m" by simp
      from year_plus_days_mono [OF this, of sd] last
      show "year (plus_days sd i) \<le> 9999" by simp
    qed
  qed
  with Suc show ?thesis by simp
qed

lemma run_closed:
  "run_simulation_engine A sb tb txs sd wd =
     (if nat wd = 0 \<or> year (plus_days sd (nat wd - 1)) \<le> 9999
      then Inr (map (projection_row A tb txs sd sb) [0..<nat wd])
      else Inl OverflowError)"
  unfolding run_simulation_engine_def engine_loop_closed window_in_range by simp

lemma run_Inr:
  assumes "run_simulation_engine A sb tb txs sd wd = Inr res"
  shows "res = map (projection_row A tb txs sd sb) [0..<nat wd]"
    and "nat wd = 0 \<or> year (plus_days sd (nat wd - 1)) \<le> 9999"
  using assms by (simp_all add: run_closed split: if_splits)

lemma run_length:
  "run_simulation_engine A sb tb txs sd wd = Inr res \<Longrightarrow> length res = nat wd"
  using run_Inr(1) [of A sb tb txs sd wd res] by simp

lemma run_nth:
  "run_simulation_engine A sb tb txs sd wd = Inr res \<Longrightarrow> i < length res \<Longrightarrow>
     res ! i = projection_row A tb txs sd sb i"
  using run_Inr(1) [of A sb tb txs sd wd res] by simp

lemma run_other_transactions:
  assumes "run_simulation_engine A sb tb txs sd wd = Inr res"
  shows "run_simulation_engine A sb' tb' txs' sd wd =
           Inr (map (projection_row A tb' txs' sd sb') [0..<nat wd])"
  using run_Inr(2) [OF assms] by (simp add: run_closed)

lemma run_Inl:
  "run_simulation_engine A sb tb txs sd wd = Inl e \<Longrightarrow>
     run_simulation_engine A sb' tb' txs' sd wd = Inl OverflowError"
  by (simp add: run_closed split: if_splits)

lemma projection_row_fields:
  "date (projection_row A tb txs sd sb i) = plus_days sd i"
  "start_balance (projection_row A tb txs sd sb i) = running_balance A txs sd sb i"
  "end_balance (projection_row A tb txs sd sb i) = running_balance A txs sd sb (Suc i)"
  "net_change (projection_row A tb txs sd sb i) =
     day_net_change_of A (day_transactions_of txs (plus_days sd i))"
  by (simp_all add: projection_row_def simulate_day_date simulate_day_start simulate_day_end
        simulate_day_net)

section \<open>The two arithmetics\<close>

lemma exact_ops [simp]:
  "num_zero exact = 0"
  "num_add exact = (+)"
  "num_sub exact = (-)"
  "num_neg exact = uminus"
  "num_lt exact = (<)"
  "num_le exact = (\<le>)"
  "series_sum exact = sum_list"
  "format_2f exact = fmt2"
  by (simp_all add: exact_def)

lemma exact_series_min: "series_min exact (x # xs) = Min (set (x # xs))"
proof -
  have "series_min exact (x # xs) = fold min xs x" by (simp add: exact_def)
  also have "\<dots> = Min (set (x # xs))" by (rule Min.set_eq_fold [symmetric])
  finally show ?thesis .
qed

lemma exact_py_max0 [simp]: "py_max0 exact x = max 0 x"
  by (simp add: py_max0_def max_def)

lemma int64_ops [simp]:
  "num_zero int64 = 0"
  "num_add int64 = (+)"
  "num_sub int64 = (-)"
  "num_neg int64 = uminus"
  "num_lt int64 = word_sless"
  "num_le int64 = word_sle"
  "series_sum int64 = sum_list"
  "format_2f int64 = (\<lambda>w. fmt2 (of_int (sint w)))"
  by (simp_all add: int64_def)

subsection \<open>The summary of a day never ends in a closing bracket\<close>

lemma digit_char_not_paren: "n < 10 \<Longrightarrow> digit_char n \<noteq> CHR '')''"
proof
  assume "n < 10"
  then have "n < length ''0123456789''" by simp
  then have mem: "digit_char n \<in> set ''0123456789''"
    unfolding digit_char_def by (rule nth_mem)
  assume "digit_char n = CHR '')''"
  with mem have "CHR '')'' \<in> set ''0123456789''" by (simp only:)
  then show False by simp
qed

lemma fmt2_last: "fmt2 x \<noteq> [] \<and> last (fmt2 x) \<noteq> CHR '')''"
  by (simp add: fmt2_def Let_def digit_char_not_paren)

lemma summary_part_last:
  "summary_part exact tx \<noteq> [] \<and> last (summary_part exact tx) \<noteq> CHR '')''"
  using fmt2_last [of "amount tx"] by (simp add: summary_part_def)

lemma join_last:
  assumes "ps \<noteq> []" and "\<forall>p\<in>set ps. p \<noteq> [] \<and> last p \<noteq> c"
  shows "join sep ps \<noteq> [] \<and> last (join sep ps) \<noteq> c"
  using assms by (induction sep ps rule: join.induct) simp_all

lemma day_summary_last:
  "day_summary_of exact day_transactions = [] \<or>
   last (day_summary_of exact day_transactions) \<noteq> CHR '')''"
proof (cases "day_transactions = []")
  case True
  then show ?thesis by (simp add: day_summary_of_def)
next
  case False
  then have "map (summary_part exact) day_transactions \<noteq> []" by simp
  moreover
  have "\<forall>p\<in>set (map (summary_part exact) day_transactions). p \<noteq> [] \<and> last p \<noteq> CHR '')''"
    by (auto simp: summary_part_last)
  ultimately
  have "last (join '', '' (map (summary_part exact) day_transactions)) \<noteq> CHR '')''"
    using join_last by blast
  with False show ?thesis by (simp add: day_summary_of_def)
qed

lemma day_summary_no_note:
  "day_summary_of exact day_transactions \<noteq> s @ ''SYSTEM: Add funds ('' @ fmt2 x @ '')''"
proof
  assume eq: "day_summary_of exact day_transactions =
                s @ ''SYSTEM: Add funds ('' @ fmt2 x @ '')''"
  then have "day_summary_of exact day_transactions \<noteq> []" by simp
  moreover from eq have "last (day_summary_of exact day_transactions) = CHR '')''" by simp
  ultimately show False using day_summary_last [of day_transactions] by simp
qed

subsection \<open>Equations for evaluating the engine on given inputs\<close>

lemma simulate_day_unfold:
  "simulate_day A tb txs d b =
     (if num_lt A (num_add A b (day_net_change_of A (day_transactions_of txs d))) tb then
        \<lparr>date = d,
         start_balance = b,
         transactions_summary =
           (if day_summary_of A (day_transactions_of txs d) \<noteq> []
            then day_summary_of A (day_transactions_of txs d) @ '', '' @
                 add_funds_note A
                   (num_sub A tb
                      (num_add A b (day_net_change_of A (day_transactions_of txs d))))
            else add_funds_note A
                   (num_sub A tb
                      (num_add A b (day_net_change_of A (day_transactions_of txs d))))),
         net_change = day_net_change_of A (day_transactions_of txs d),
         end_balance = num_add A b (day_net_change_of A (day_transactions_of txs d)),
         alert_type = BELOW_TARGET\<rparr>
      else
        \<lparr>date = d,
         start_balance = b,
         transactions_summary = day_summary_of A (day_transactions_of txs d),
         net_change = day_net_change_of A (day_transactions_of txs d),
         end_balance = num_add A b (day_net_change_of A (day_transactions_of txs d)),
         alert_type = OK\<rparr>)"
  by (simp add: simulate_day_def Let_def)

lemma round_half_even_of_int: "round_half_even (of_int m) = m"
  by (simp add: round_half_even_def)

lemma fmt2_of_nat: "fmt2 (of_nat n) = digits n @ [CHR ''.'', CHR ''0'', CHR ''0'']"
proof -
  have "\<bar>rat_of_nat n\<bar> * 100 = of_int (int (n * 100))"
    by simp
  then have "nat (round_half_even (\<bar>rat_of_nat n\<bar> * 100)) = n * 100"
    by (simp only: round_half_even_of_int nat_int)
  then show ?thesis
    unfolding fmt2_def Let_def by (simp add: digit_char_def)
qed

lemma fmt2_neg_of_nat:
  "0 < n \<Longrightarrow> fmt2 (- of_nat n) = CHR ''-'' # digits n @ [CHR ''.'', CHR ''0'', CHR ''0'']"
proof -
  assume "0 < n"
  have "\<bar>- rat_of_nat n\<bar> * 100 = of_int (int (n * 100))"
    by simp
  then have "nat (round_half_even (\<bar>- rat_of_nat n\<bar> * 100)) = n * 100"
    by (simp only: round_half_even_of_int nat_int)
  with \<open>0 < n\<close> show ?thesis
    unfolding fmt2_def Let_def by (simp add: digit_char_def)
qed

lemma fmt2_numeral: "fmt2 (numeral w) = digits (numeral w) @ [CHR ''.'', CHR ''0'', CHR ''0'']"
  using fmt2_of_nat [of "numeral w"] by simp

lemma fmt2_neg_numeral:
  "fmt2 (- numeral w) = CHR ''-'' # digits (numeral w) @ [CHR ''.'', CHR ''0'', CHR ''0'']"
  using fmt2_neg_of_nat [of "numeral w"] by simp

lemma fmt2_zero: "fmt2 0 = ''0.00''"
  using fmt2_of_nat [of 0] by (simp add: digits.simps digit_char_def)

lemma plus_days_numeral:
  "plus_days d (numeral k) = next_date (plus_days d (pred_numeral k))"
  by (simp add: numeral_eq_Suc)

lemmas engine_eval =
  run_closed projection_row_def simulate_day_unfold
  day_transactions_of_def day_net_change_of_def day_summary_of_def summary_part_def
  add_funds_note_def fmt2_numeral fmt2_neg_numeral fmt2_zero digits.simps digit_char_def
  next_date_def days_in_month_def is_leap_def upt_conv_Cons

lemma sample_run_3:
  "run_simulation_engine exact 2000 1000 sample_sim_transactions (jan_2024 1) 3 =
     Inr [\<lparr>date = jan_2024 1, start_balance = 2000, transactions_summary = '''',
           net_change = 0, end_balance = 2000, alert_type = OK\<rparr>,
          \<lparr>date = jan_2024 2, start_balance = 2000,
           transactions_summary = ''Rent: -1500.00, SYSTEM: Add funds (500.00)'',
           net_change = - 1500, end_balance = 500, alert_type = BELOW_TARGET\<rparr>,
          \<lparr>date = jan_2024 3, start_balance = 500,
           transactions_summary = ''SYSTEM: Add funds (500.00)'',
           net_change = 0, end_balance = 500, alert_type = BELOW_TARGET\<rparr>]"
  by (simp add: engine_eval jan_2024_def sample_sim_transactions_def plus_days_numeral)


section \<open>Properties of the advisor and of the scan loop\<close>

lemma exact_lowest_of: "fb \<noteq> [] \<Longrightarrow> lowest_of exact fb = Some (Min (set fb))"
proof (cases fb)
  case Nil
  assume "fb \<noteq> []"
  with Nil show ?thesis by simp
next
  case (Cons x xs)
  then show ?thesis by (simp only: lowest_of.simps exact_series_min)
qed

lemma advisor_count:
  "snd (calculate_intelligent_transfer_counted A m t fb) =
     (if num_le A (num_sub A m t) (num_zero A) then 0 else 1)"
  by (simp add: calculate_intelligent_transfer_counted_def Let_def)

text \<open>One step of the scan, by the three ways through its body.\<close>

lemma scan_same_month:
  assumes "month (date (sim_results_df st ! i)) = month (date (sim_results_df st ! (i + 1)))"
  shows "scan_month_ends A sb tb sd wd (i # rest) st = scan_month_ends A sb tb sd wd rest st"
  using assms by (simp add: Let_def)

lemma scan_month_end_no_transfer:
  assumes "month (date (sim_results_df st ! i)) \<noteq> month (date (sim_results_df st ! (i + 1)))"
    and "amt = calculate_intelligent_transfer A (end_balance (sim_results_df st ! i)) tb
                 (map end_balance
                    (take (min 30 (length (sim_results_df st) - i - 1))
                       (drop (i + 1) (sim_results_df st))))"
    and "\<not> num_lt A (num_zero A) amt"
  shows "scan_month_ends A sb tb sd wd (i # rest) st =
           scan_month_ends A sb tb sd wd rest (st\<lparr>recommended_transfer := amt\<rparr>)"
  using assms by (simp add: Let_def)

lemma scan_month_end_transfer:
  assumes "month (date (sim_results_df st ! i)) \<noteq> month (date (sim_results_df st ! (i + 1)))"
    and "amt = calculate_intelligent_transfer A (end_balance (sim_results_df st ! i)) tb
                 (map end_balance
                    (take (min 30 (length (sim_results_df st) - i - 1))
                       (drop (i + 1) (sim_results_df st))))"
    and "num_lt A (num_zero A) amt"
    and "run_simulation_engine A sb tb
           (transactions_df st @ [virtual_tx A (date (sim_results_df st ! (i + 1))) amt]) sd wd
         = Inr sim"
  shows "scan_month_ends A sb tb sd wd (i # rest) st =
           Inr (st\<lparr>recommended_transfer := amt,
                   transactions_df :=
                     transactions_df st @
                       [virtual_tx A (date (sim_results_df st ! (i + 1))) amt],
                   sim_results_df := sim,
                   engine_runs := engine_runs st + 1\<rparr>)"
  using assms by (simp add: Let_def)

lemma scan_skip:
  assumes "\<forall>i\<in>set is.
             month (date (sim_results_df st ! i)) = month (date (sim_results_df st ! (i + 1)))"
  shows "scan_month_ends A sb tb sd wd (is @ js) st = scan_month_ends A sb tb sd wd js st"
  using assms
proof (induction "is")
  case Nil
  show ?case by simp
next
  case (Cons i "is")
  then show ?case by (simp add: Let_def)
qed

text \<open>What the scan does to the frame of transactions and to the count of engine runs,
  for a window on which the engine does not raise.\<close>

lemma scan_injects_at_most_once:
  assumes fits: "nat wd = 0 \<or> year (plus_days sd (nat wd - 1)) \<le> 9999"
  shows "\<exists>st'. scan_month_ends A sb tb sd wd is st = Inr st' \<and>
           ((transactions_df st' = transactions_df st \<and>
             sim_results_df st' = sim_results_df st \<and>
             engine_runs st' = engine_runs st) \<or>
            (\<exists>d amt. num_lt A (num_zero A) amt \<and>
               recommended_transfer st' = amt \<and>
               transactions_df st' = transactions_df st @ [virtual_tx A d amt] \<and>
               run_simulation_engine A sb tb (transactions_df st @ [virtual_tx A d amt]) sd wd
                 = Inr (sim_results_df st') \<and>
               engine_runs st' = engine_runs st + 1))"
proof (induction "is" arbitrary: st)
  case Nil
  show ?case by simp
next
  case (Cons i rest)
  define amt where "amt = calculate_intelligent_transfer A (end_balance (sim_results_df st ! i)) tb
                 (map end_balance
                    (take (min 30 (length (sim_results_df st) - i - 1))
                       (drop (i + 1) (sim_results_df st))))"
  show ?case
  proof (cases "month (date (sim_results_df st ! i)) = month (date (sim_results_df st ! (i + 1)))")
    case True
    from Cons.IH [of st] show ?thesis
      unfolding scan_same_month [OF True] .
  next
    case boundary: False
    show ?thesis
    proof (cases "num_lt A (num_zero A) amt")
      case True
      define txs where
        "txs = transactions_df st @ [virtual_tx A (date (sim_results_df st ! (i + 1))) amt]"
      define sim where "sim = map (projection_row A tb txs sd sb) [0..<nat wd]"
      have run: "run_simulation_engine A sb tb txs sd wd = Inr sim"
        using fits by (simp add: run_closed sim_def)
      have "scan_month_ends A sb tb sd wd (i # rest) st =
              Inr (st\<lparr>recommended_transfer := amt, transactions_df := txs,
                      sim_results_df := sim, engine_runs := engine_runs st + 1\<rparr>)"
        unfolding txs_def
        by (rule scan_month_end_transfer [OF boundary amt_def True run [unfolded txs_def]])
      moreover have "run_simulation_engine A sb tb
                       (transactions_df st @
                          [virtual_tx A (date (sim_results_df st ! (i + 1))) amt]) sd wd
                     = Inr sim"
        using run unfolding txs_def .
      ultimately show ?thesis
        using True by (auto simp: txs_def)
    next
      case False
      from Cons.IH [of "st\<lparr>recommended_transfer := amt\<rparr>"] show ?thesis
        unfolding scan_month_end_no_transfer [OF boundary amt_def False] by simp
    qed
  qed
qed

subsection \<open>The window with two month ends\<close>

lemma two_month_february:
  assumes "1 \<le> k" and "k \<le> 28"
  shows "plus_days two_month_start k = \<lparr>year = 2023, month = 2, day = k\<rparr>"
  using assms
proof (induction k rule: dec_induct)
  case base
  show ?case
    by (simp add: two_month_start_def next_date_def days_in_month_def)
next
  case (step k)
  then have "plus_days two_month_start k = \<lparr>year = 2023, month = 2, day = k\<rparr>"
    by simp
  with step.prems show ?case
    by (simp add: next_date_def days_in_month_def is_leap_def)
qed

lemma two_month_march:
  "plus_days two_month_start 29 = \<lparr>year = 2023, month = 3, day = 1\<rparr>"
proof -
  have "(29::nat) = Suc 28" by simp
  then have "plus_days two_month_start 29 = next_date (plus_days two_month_start 28)"
    by (simp only: plus_days.simps)
  also have "plus_days two_month_start 28 = \<lparr>year = 2023, month = 2, day = 28\<rparr>"
    by (rule two_month_february) simp_all
  also have "next_date \<lparr>year = 2023, month = 2, day = 28\<rparr> = \<lparr>year = 2023, month = 3, day = 1\<rparr>"
    by (simp add: next_date_def days_in_month_def is_leap_def)
  finally show ?thesis .
qed

lemma two_month_no_transactions:
  assumes "2 \<le> k" and "k \<le> 29"
  shows "day_transactions_of two_month_transactions (plus_days two_month_start k) = []"
proof (cases "k = 29")
  case True
  then show ?thesis
    by (simp add: two_month_march day_transactions_of_def two_month_transactions_def)
next
  case False
  with assms have "1 \<le> k" and "k \<le> 28" by simp_all
  then have "plus_days two_month_start k = \<lparr>year = 2023, month = 2, day = k\<rparr>"
    by (rule two_month_february)
  with assms show ?thesis
    by (simp add: day_transactions_of_def two_month_transactions_def)
qed

lemma two_month_balance_1:
  "running_balance exact two_month_transactions two_month_start 1000 (Suc 0) = 1000"
  by (simp add: day_transactions_of_def day_net_change_of_def two_month_transactions_def
        two_month_start_def)

lemma two_month_balance_2:
  "running_balance exact two_month_transactions two_month_start 1000 (Suc (Suc 0)) = 1100"
proof -
  have "plus_days two_month_start (Suc 0) = \<lparr>year = 2023, month = 2, day = Suc 0\<rparr>"
    by (rule two_month_february) simp_all
  then show ?thesis
    by (simp only: running_balance.simps(2) [of _ _ _ _ "Suc 0"] two_month_balance_1)
       (simp add: day_transactions_of_def day_net_change_of_def two_month_transactions_def)
qed

lemma two_month_balance:
  assumes "2 \<le> k" and "k \<le> 30"
  shows "running_balance exact two_month_transactions two_month_start 1000 k = 1100"
  using assms
proof (induction k rule: dec_induct)
  case base
  have "(2::nat) = Suc (Suc 0)" by simp
  then show ?case by (simp only: two_month_balance_2)
next
  case (step k)
  then have "k \<le> 29" by simp
  from two_month_no_transactions [OF step.hyps(1) this] step.IH step.prems
  show ?case
    by (simp only: running_balance.simps) (simp add: day_net_change_of_def)
qed

lemma two_month_run:
  "run_simulation_engine exact sb tb txs two_month_start 30 =
     Inr (map (projection_row exact tb txs two_month_start sb) [0..<30])"
  by (simp add: run_closed two_month_march)

lemma two_month_scan:
  "report_final_state exact 1000 1000 two_month_transactions two_month_start 30 =
     Inr \<lparr>sim_results_df =
            map (projection_row exact 1000
                   (two_month_transactions @
                      [virtual_tx exact \<lparr>year = 2023, month = 3, day = 1\<rparr> 100])
                   two_month_start 1000) [0..<30],
          recommended_transfer = 100,
          transactions_df =
            two_month_transactions @ [virtual_tx exact \<lparr>year = 2023, month = 3, day = 1\<rparr> 100],
          engine_runs = 2\<rparr>"
proof -
  define sim where
    "sim = map (projection_row exact 1000 two_month_transactions two_month_start 1000) [0..<30]"
  define st0 where
    "st0 = \<lparr>sim_results_df = sim, recommended_transfer = 0,
            transactions_df = two_month_transactions, engine_runs = 1\<rparr>"
  have len: "length sim = 30" by (simp add: sim_def)
  have dates: "date (sim ! i) = plus_days two_month_start i" if "i < 30" for i
    using that by (simp add: sim_def projection_row_fields)
  have ends: "end_balance (sim ! i) =
                running_balance exact two_month_transactions two_month_start 1000 (Suc i)"
    if "i < 30" for i
    using that by (simp add: sim_def projection_row_fields del: running_balance.simps)
  have feb: "month (date (sim ! i)) = 2" if "1 \<le> i" and "i \<le> 28" for i
    using that by (simp add: dates two_month_february)
  have split: "[0..<length sim - 1] = 0 # ([1..<28] @ [28])"
    by (simp add: len upt_conv_Cons [of 0] upt_Suc_append [symmetric] del: upt_Suc)
  \<comment> \<open>index 0: the pair 31 January, 1 February; no surplus, the loop goes on\<close>
  have b0: "month (date (sim_results_df st0 ! 0)) \<noteq> month (date (sim_results_df st0 ! (0 + 1)))"
    using feb [of 1] by (simp add: st0_def dates two_month_start_def)
  have "end_balance (sim ! 0) =
          running_balance exact two_month_transactions two_month_start 1000 (Suc 0)"
    by (rule ends) simp
  then have e0: "end_balance (sim ! 0) = 1000"
    by (simp only: two_month_balance_1)
  have a0: "calculate_intelligent_transfer exact (end_balance (sim_results_df st0 ! 0)) 1000
              (map end_balance
                 (take (min 30 (length (sim_results_df st0) - 0 - 1))
                    (drop (0 + 1) (sim_results_df st0)))) = 0"
    by (simp add: st0_def e0 calculate_intelligent_transfer_def
          calculate_intelligent_transfer_counted_def)
  have "scan_month_ends exact 1000 1000 two_month_start 30 (0 # ([1..<28] @ [28])) st0 =
          scan_month_ends exact 1000 1000 two_month_start 30 ([1..<28] @ [28])
            (st0\<lparr>recommended_transfer := 0\<rparr>)"
    by (rule scan_month_end_no_transfer [OF b0 a0 [symmetric]]) simp
  also have "st0\<lparr>recommended_transfer := 0\<rparr> = st0"
    by (simp add: st0_def)
  finally have s0: "scan_month_ends exact 1000 1000 two_month_start 30 (0 # ([1..<28] @ [28])) st0 =
                      scan_month_ends exact 1000 1000 two_month_start 30 ([1..<28] @ [28]) st0" .
  \<comment> \<open>indices 1 to 27: both days in February\<close>
  have s1: "scan_month_ends exact 1000 1000 two_month_start 30 ([1..<28] @ [28]) st0 =
              scan_month_ends exact 1000 1000 two_month_start 30 [28] st0"
    by (rule scan_skip) (simp add: st0_def feb)
  \<comment> \<open>index 28: the pair 28 February, 1 March; surplus 100, nothing held back\<close>
  have b28: "month (date (sim_results_df st0 ! 28)) \<noteq> month (date (sim_results_df st0 ! (28 + 1)))"
    using feb [of 28] by (simp add: st0_def dates two_month_march)
  have "end_balance (sim ! 28) =
          running_balance exact two_month_transactions two_month_start 1000 (Suc 28)"
    by (rule ends) simp
  also have "\<dots> = 1100" by (rule two_month_balance) simp_all
  finally have e28: "end_balance (sim ! 28) = 1100" .
  have "end_balance (sim ! 29) =
          running_balance exact two_month_transactions two_month_start 1000 (Suc 29)"
    by (rule ends) simp
  also have "\<dots> = 1100" by (rule two_month_balance) simp_all
  finally have e29: "end_balance (sim ! 29) = 1100" .
  have fut: "map end_balance (take (min 30 (length (sim_results_df st0) - 28 - 1))
                (drop (28 + 1) (sim_results_df st0))) = [1100]"
  proof -
    have "drop 29 sim = [sim ! 29]"
      using len Cons_nth_drop_Suc [of 29 sim] by simp
    then show ?thesis
      by (simp add: st0_def len e29)
  qed
  have a28: "calculate_intelligent_transfer exact (end_balance (sim_results_df st0 ! 28)) 1000
              (map end_balance
                 (take (min 30 (length (sim_results_df st0) - 28 - 1))
                    (drop (28 + 1) (sim_results_df st0)))) = 100"
    unfolding fut
    by (simp add: st0_def e28 calculate_intelligent_transfer_def
          calculate_intelligent_transfer_counted_def exact_series_min)
  have d29: "date (sim_results_df st0 ! (28 + 1)) = \<lparr>year = 2023, month = 3, day = 1\<rparr>"
    by (simp add: st0_def dates two_month_march)
  have "scan_month_ends exact 1000 1000 two_month_start 30 [28] st0 =
          Inr (st0\<lparr>recommended_transfer := 100,
                   transactions_df :=
                     transactions_df st0 @
                       [virtual_tx exact (date (sim_results_df st0 ! (28 + 1))) 100],
                   sim_results_df :=
                     map (projection_row exact 1000
                            (transactions_df st0 @
                               [virtual_tx exact (date (sim_results_df st0 ! (28 + 1))) 100])
                            two_month_start 1000) [0..<30],
                   engine_runs := engine_runs st0 + 1\<rparr>)"
    by (rule scan_month_end_transfer [OF b28 a28 [symmetric] _ two_month_run]) simp
  also have "\<dots> =
     Inr \<lparr>sim_results_df =
            map (projection_row exact 1000
                   (two_month_transactions @
                      [virtual_tx exact \<lparr>year = 2023, month = 3, day = 1\<rparr> 100])
                   two_month_start 1000) [0..<30],
          recommended_transfer = 100,
          transactions_df =
            two_month_transactions @ [virtual_tx exact \<lparr>year = 2023, month = 3, day = 1\<rparr> 100],
          engine_runs = 2\<rparr>"
    unfolding d29 by (simp add: st0_def)
  finally have s28: "scan_month_ends exact 1000 1000 two_month_start 30 [28] st0 =
     Inr \<lparr>sim_results_df =
            map (projection_row exact 1000
                   (two_month_transactions @
                      [virtual_tx exact \<lparr>year = 2023, month = 3, day = 1\<rparr> 100])
                   two_month_start 1000) [0..<30],
          recommended_transfer = 100,
          transactions_df =
            two_month_transactions @ [virtual_tx exact \<lparr>year = 2023, month = 3, day = 1\<rparr> 100],
          engine_runs = 2\<rparr>" .
  have "report_final_state exact 1000 1000 two_month_transactions two_month_start 30 =
          scan_month_ends exact 1000 1000 two_month_start 30 [0..<length sim - 1] st0"
    by (simp add: report_final_state_def two_month_run sim_def st0_def)
  then show ?thesis
    by (simp only: split s0 s1 s28)
qed

section \<open>Properties of the store\<close>

lemma engine_on_frame:
  "take (length s) (fst (run_simulation_engine_on A s sb tb a sd wd)) = s"
  by (simp add: run_simulation_engine_on_def df_copy_def)

lemma engine_on_length:
  "length s \<le> length (fst (run_simulation_engine_on A s sb tb a sd wd))"
  by (simp add: run_simulation_engine_on_def df_copy_def)

lemma take_take_frame:
  assumes "take (length s1) s2 = s1" and "take n s1 = s0" and "n \<le> length s1"
  shows "take n s2 = s0"
proof -
  have "take n s2 = take n (take (length s1) s2)"
    using assms(3) by (simp add: min_absorb1)
  with assms(1,2) show ?thesis by simp
qed

lemma scan_on_frame:
  "take (length (frames st)) (frames (scan_month_ends_on A sb tb sd wd is st)) = frames st"
proof (induction "is" arbitrary: st)
  case Nil
  show ?case by simp
next
  case (Cons i rest)
  define amt where "amt = calculate_intelligent_transfer A (end_balance (results st ! i)) tb
                 (map end_balance
                    (take (min 30 (length (results st) - i - 1))
                       (drop (i + 1) (results st))))"
  show ?case
  proof (cases "month (date (results st ! i)) = month (date (results st ! (i + 1)))")
    case True
    with Cons.IH [of st] show ?thesis by (simp add: Let_def)
  next
    case boundary: False
    show ?thesis
    proof (cases "num_lt A (num_zero A) amt")
      case True
      with boundary show ?thesis
        unfolding amt_def
        by (simp add: Let_def df_concat_def run_simulation_engine_on_def df_copy_def
              split: sum.split)
    next
      case False
      with boundary Cons.IH [of "st\<lparr>transfer := amt\<rparr>"] show ?thesis
        unfolding amt_def by (simp add: Let_def)
    qed
  qed
qed

text \<open>With conversions that change nothing, the store-passing functions return what the
  functions on values return.\<close>

lemma engine_on_result:
  "snd (run_simulation_engine_on A s sb tb a sd wd) = run_simulation_engine A sb tb (s ! a) sd wd"
  by (simp add: run_simulation_engine_on_def df_copy_def)

lemma scan_on_result:
  assumes "results st = sim_results_df p" and "transfer st = recommended_transfer p"
    and "frames st ! transactions_ref st = transactions_df p" and "raised st = None"
  shows "case scan_month_ends A sb tb sd wd is p of
           Inl e \<Rightarrow> raised (scan_month_ends_on A sb tb sd wd is st) = Some e
         | Inr p' \<Rightarrow>
             raised (scan_month_ends_on A sb tb sd wd is st) = None \<and>
             results (scan_month_ends_on A sb tb sd wd is st) = sim_results_df p' \<and>
             transfer (scan_month_ends_on A sb tb sd wd is st) = recommended_transfer p'"
  using assms
proof (induction "is" arbitrary: st p)
  case Nil
  then show ?case by simp
next
  case (Cons i rest)
  define amt where "amt = calculate_intelligent_transfer A (end_balance (results st ! i)) tb
                 (map end_balance
                    (take (min 30 (length (results st) - i - 1))
                       (drop (i + 1) (results st))))"
  show ?case
  proof (cases "month (date (results st ! i)) = month (date (results st ! (i + 1)))")
    case True
    with Cons.IH [OF Cons.prems] Cons.prems(1) show ?thesis
      by (simp add: Let_def cong: sum.case_cong)
  next
    case boundary: False
    show ?thesis
    proof (cases "num_lt A (num_zero A) amt")
      case True
      with boundary Cons.prems show ?thesis
        unfolding amt_def
        by (simp add: Let_def df_concat_def run_simulation_engine_on_def df_copy_def
              split: sum.split)
    next
      case False
      have "results (st\<lparr>transfer := amt\<rparr>) =
              sim_results_df (p\<lparr>recommended_transfer := amt\<rparr>)"
        and "transfer (st\<lparr>transfer := amt\<rparr>) =
              recommended_transfer (p\<lparr>recommended_transfer := amt\<rparr>)"
        and "frames (st\<lparr>transfer := amt\<rparr>) ! transactions_ref (st\<lparr>transfer := amt\<rparr>) =
              transactions_df (p\<lparr>recommended_transfer := amt\<rparr>)"
        and "raised (st\<lparr>transfer := amt\<rparr>) = None"
        using Cons.prems by simp_all
      from Cons.IH [OF this] False boundary Cons.prems(1) show ?thesis
        unfolding amt_def by (simp add: Let_def cong: sum.case_cong)
    qed
  qed
qed

lemma report_on_result:
  "snd (generate_simulation_report_on A (\<lambda>rows. rows) (\<lambda>rows. rows) s sb tb a sd wd) =
     generate_simulation_report A sb tb (s ! a) sd wd"
proof (cases "run_simulation_engine A sb tb (s ! a) sd wd")
  case (Inl e)
  then show ?thesis
    by (simp add: generate_simulation_report_on_def generate_simulation_report_def
          report_final_state_def df_copy_def df_set_column_def run_simulation_engine_on_def)
next
  case (Inr sim)
  define st0 where
    "st0 = \<lparr>frames = (s @ [s ! a]) @ [s ! a], transactions_ref = length s, results = sim,
            transfer = num_zero A, raised = None\<rparr>"
  define p0 where
    "p0 = \<lparr>sim_results_df = sim, recommended_transfer = num_zero A, transactions_df = s ! a,
            engine_runs = 1\<rparr>"
  have lhs: "snd (generate_simulation_report_on A (\<lambda>rows. rows) (\<lambda>rows. rows) s sb tb a sd wd) =
               (case raised (scan_month_ends_on A sb tb sd wd [0..<length sim - 1] st0) of
                  Some e \<Rightarrow> Inl e
                | None \<Rightarrow>
                    Inr (results (scan_month_ends_on A sb tb sd wd [0..<length sim - 1] st0),
                         transfer (scan_month_ends_on A sb tb sd wd [0..<length sim - 1] st0)))"
    using Inr
    by (simp add: generate_simulation_report_on_def df_copy_def df_set_column_def Let_def
          run_simulation_engine_on_def st0_def nth_append cong: option.case_cong)
  have rhs: "generate_simulation_report A sb tb (s ! a) sd wd =
               (case scan_month_ends A sb tb sd wd [0..<length sim - 1] p0 of
                  Inl e \<Rightarrow> Inl e
                | Inr st \<Rightarrow> Inr (sim_results_df st, recommended_transfer st))"
    using Inr
    by (simp add: generate_simulation_report_def report_final_state_def p0_def)
  have "results st0 = sim_results_df p0" and "transfer st0 = recommended_transfer p0"
    and "frames st0 ! transactions_ref st0 = transactions_df p0" and "raised st0 = None"
    by (simp_all add: st0_def p0_def nth_append)
  from scan_on_result [OF this, of A sb tb sd wd "[0..<length sim - 1]"] show ?thesis
    unfolding lhs rhs by (simp split: sum.splits)
qed

section \<open>The properties stated by the specification\<close>

text \<open>
  C1. For a non-empty series of future balances the advisor returns \<open>0\<close> when the surplus
  \<open>month_end_balance - target_balance\<close> is at most \<open>0\<close>, and otherwise
  \<open>max 0 (surplus - max 0 (target_balance - min future_balances))\<close>; the result can be \<open>0\<close>
  with a positive surplus. Stated in exact arithmetic.
\<close>

theorem advisor_formula:
  assumes "future_balances \<noteq> []"
  shows "calculate_intelligent_transfer exact month_end_balance target_balance future_balances =
           (if month_end_balance - target_balance \<le> 0 then 0
            else max 0 ((month_end_balance - target_balance)
                        - max 0 (target_balance - Min (set future_balances)))) \<and>
         (\<exists>m t fb. fb \<noteq> [] \<and> 0 < m - t \<and> calculate_intelligent_transfer exact m t fb = 0)"
proof
  show "calculate_intelligent_transfer exact month_end_balance target_balance future_balances =
           (if month_end_balance - target_balance \<le> 0 then 0
            else max 0 ((month_end_balance - target_balance)
                        - max 0 (target_balance - Min (set future_balances))))"
    using assms
    by (simp add: calculate_intelligent_transfer_def calculate_intelligent_transfer_counted_def
          Let_def exact_lowest_of)
next
  have "lowest_of exact [2000, 1500, 2500] = Some (Min (set [2000, 1500, 2500]))"
    by (rule exact_lowest_of) simp
  also have "Min (set [2000, 1500, 2500 :: rat]) = 1500" by simp
  finally have "lowest_of exact [2000, 1500, 2500] = Some 1500" .
  then have "calculate_intelligent_transfer exact 3000 2500 [2000, 1500, 2500] = 0"
    by (simp add: calculate_intelligent_transfer_def calculate_intelligent_transfer_counted_def
          Let_def del: lowest_of.simps)
  moreover have "(0::rat) < 3000 - 2500" by simp
  ultimately
  show "\<exists>m t fb. fb \<noteq> [] \<and> 0 < m - t \<and> calculate_intelligent_transfer exact m t fb = 0"
    by blast
qed

theorem advisor_formula_witness:
  "[4000, 1500, 2000, 3500] \<noteq> ([] :: rat list) \<and>
   calculate_intelligent_transfer exact 5000 2500 [4000, 1500, 2000, 3500] = 1500"
  using advisor_formula [of "[4000, 1500, 2000, 3500]" 5000 2500] by simp

text \<open>
  C2. With a positive \<open>window_days\<close> the balances of a result chain: the first row starts at
  the given start balance, and for every \<open>i\<close> from \<open>0\<close> to \<open>window_days - 2\<close> row \<open>i + 1\<close>
  starts at the end balance of row \<open>i\<close>. This holds in every arithmetic.
\<close>

theorem balance_chaining:
  assumes "0 < window_days"
    and "run_simulation_engine A sb tb txs sd window_days = Inr res"
  shows "start_balance (res ! 0) = sb \<and>
         (\<forall>i::nat. int i \<le> window_days - 2 \<longrightarrow>
            start_balance (res ! (i + 1)) = end_balance (res ! i))"
proof (intro conjI allI impI)
  have len: "length res = nat window_days"
    using assms(2) by (rule run_length)
  with assms(1) have "0 < length res" by simp
  then show "start_balance (res ! 0) = sb"
    by (simp add: run_nth [OF assms(2)] projection_row_fields)
next
  fix i :: nat
  assume "int i \<le> window_days - 2"
  moreover have "length res = nat window_days"
    using assms(2) by (rule run_length)
  ultimately have i: "i < length res" and i1: "i + 1 < length res" by linarith+
  have "res ! (i + 1) = projection_row A tb txs sd sb (Suc i)"
    using run_nth [OF assms(2) i1] by simp
  moreover have "res ! i = projection_row A tb txs sd sb i"
    by (rule run_nth [OF assms(2) i])
  ultimately show "start_balance (res ! (i + 1)) = end_balance (res ! i)"
    by (simp only: projection_row_fields)
qed

theorem balance_chaining_witness:
  "(0::int) < 3 \<and>
   (\<exists>res. run_simulation_engine exact 2000 1000 sample_sim_transactions (jan_2024 1) 3 = Inr res \<and>
      start_balance (res ! 0) = 2000 \<and>
      start_balance (res ! 2) = end_balance (res ! 1) \<and>
      end_balance (res ! 1) = 500)"
proof -
  have pos: "(0::int) < 3" by simp
  from sample_run_3 obtain res
    where run: "run_simulation_engine exact 2000 1000 sample_sim_transactions (jan_2024 1) 3
                  = Inr res"
      and e1: "end_balance (res ! 1) = 500"
    by simp
  note chain = balance_chaining [OF pos run]
  from chain have first: "start_balance (res ! 0) = 2000" by (rule conjunct1)
  from chain
  have "int 1 \<le> 3 - 2 \<longrightarrow> start_balance (res ! (1 + 1)) = end_balance (res ! 1)"
    by (rule conjunct2 [THEN spec])
  then have step: "start_balance (res ! 2) = end_balance (res ! 1)"
    by (simp add: numeral_2_eq_2)
  from pos run first step e1 show ?thesis by blast
qed

text \<open>
  C3. On every row of a result the alert is \<open>BELOW_TARGET\<close> exactly when the end balance is
  below the target, and exactly then the summary ends with the note
  \<^verbatim>\<open>SYSTEM: Add funds (<shortfall>)\<close>, the shortfall \<open>target_balance - end_balance\<close> written
  with two decimals. With an alert the summary is the day's summary followed by the note,
  after a comma and a space when the day's summary is not empty and alone when it is;
  without an alert the summary is the day's summary and nothing more. Stated in exact
  arithmetic.
\<close>

theorem alert_correctness:
  assumes "run_simulation_engine exact sb tb txs sd window_days = Inr res"
    and "i < length res"
  shows "(alert_type (res ! i) = BELOW_TARGET \<longleftrightarrow> end_balance (res ! i) < tb) \<and>
         (end_balance (res ! i) < tb
            \<longleftrightarrow> (\<exists>s. transactions_summary (res ! i) =
                      s @ ''SYSTEM: Add funds ('' @ fmt2 (tb - end_balance (res ! i)) @ '')'')) \<and>
         transactions_summary (res ! i) =
           (let row = res ! i;
                summary = day_summary_of exact (day_transactions_of txs (date row));
                note = ''SYSTEM: Add funds ('' @ fmt2 (tb - end_balance row) @ '')''
            in if end_balance row < tb
               then (if summary \<noteq> [] then summary @ '', '' @ note else note)
               else summary)"
proof -
  define row where "row = res ! i"
  define summary where "summary = day_summary_of exact (day_transactions_of txs (date row))"
  define msg where "msg = ''SYSTEM: Add funds ('' @ fmt2 (tb - end_balance row) @ '')''"
  have row: "row = simulate_day exact tb txs (plus_days sd i) (running_balance exact txs sd sb i)"
    unfolding row_def run_nth [OF assms] projection_row_def ..
  have alert: "alert_type row = BELOW_TARGET \<longleftrightarrow> end_balance row < tb"
    unfolding row by (simp add: simulate_day_alert)
  have summ: "transactions_summary row =
           (if end_balance row < tb
            then (if summary \<noteq> [] then summary @ '', '' @ msg else msg)
            else summary)"
    unfolding summary_def msg_def row
    by (simp add: simulate_day_summary simulate_day_date add_funds_note_def Let_def)
  have suffix: "end_balance row < tb \<longleftrightarrow> (\<exists>s. transactions_summary row = s @ msg)"
  proof
    assume below: "end_balance row < tb"
    show "\<exists>s. transactions_summary row = s @ msg"
    proof (cases "summary = []")
      case True
      with below summ have "transactions_summary row = [] @ msg" by simp
      then show ?thesis ..
    next
      case False
      with below summ have "transactions_summary row = (summary @ '', '') @ msg" by simp
      then show ?thesis ..
    qed
  next
    assume "\<exists>s. transactions_summary row = s @ msg"
    then obtain s where s: "transactions_summary row = s @ msg" ..
    show "end_balance row < tb"
    proof (rule ccontr)
      assume "\<not> end_balance row < tb"
      with summ have "transactions_summary row = summary" by simp
      with s have "summary = s @ msg" by simp
      moreover have "summary \<noteq> s @ msg"
        unfolding summary_def msg_def by (rule day_summary_no_note)
      ultimately show False by contradiction
    qed
  qed
  show ?thesis
  proof (intro conjI)
    show "alert_type (res ! i) = BELOW_TARGET \<longleftrightarrow> end_balance (res ! i) < tb"
      using alert unfolding row_def .
  next
    show "end_balance (res ! i) < tb
            \<longleftrightarrow> (\<exists>s. transactions_summary (res ! i) =
                      s @ ''SYSTEM: Add funds ('' @ fmt2 (tb - end_balance (res ! i)) @ '')'')"
      using suffix unfolding msg_def row_def .
  next
    show "transactions_summary (res ! i) =
           (let row = res ! i;
                summary = day_summary_of exact (day_transactions_of txs (date row));
                note = ''SYSTEM: Add funds ('' @ fmt2 (tb - end_balance row) @ '')''
            in if end_balance row < tb
               then (if summary \<noteq> [] then summary @ '', '' @ note else note)
               else summary)"
      using summ unfolding Let_def msg_def summary_def row_def .
  qed
qed

theorem alert_correctness_witness:
  "\<exists>res. run_simulation_engine exact 2000 1000 sample_sim_transactions (jan_2024 1) 3 = Inr res \<and>
     1 < length res \<and>
     alert_type (res ! 1) = BELOW_TARGET \<and>
     end_balance (res ! 1) < 1000 \<and>
     transactions_summary (res ! 1) = ''Rent: -1500.00, SYSTEM: Add funds (500.00)''"
proof -
  from sample_run_3 obtain res
    where run: "run_simulation_engine exact 2000 1000 sample_sim_transactions (jan_2024 1) 3
                  = Inr res"
      and len: "1 < length res"
      and below: "end_balance (res ! 1) < 1000"
      and summ: "transactions_summary (res ! 1) = ''Rent: -1500.00, SYSTEM: Add funds (500.00)''"
    by simp
  from alert_correctness [OF run len]
  have "alert_type (res ! 1) = BELOW_TARGET \<longleftrightarrow> end_balance (res ! 1) < 1000"
    by (rule conjunct1)
  with below have "alert_type (res ! 1) = BELOW_TARGET" by simp
  with run len below summ show ?thesis by blast
qed

text \<open>
  C4. The specification has the orchestrator return the advisor's recommendation at the
  first pair of consecutive days in different months and stop there. The function does
  not: on the window of 30 days from 31 January 2023 the first such pair is rows 0 and 1,
  where the advisor recommends \<open>0\<close>; the loop goes on to the pair of 28 February and
  1 March, and the function returns \<open>100\<close> with a transfer injected on 1 March. The comment
  at line 196 (\<^verbatim>\<open>Only process the first month-end we encounter\<close>) says what the
  specification says; the \<^verbatim>\<open>break\<close> under it is reached only after a positive
  recommendation.
\<close>

theorem report_passes_first_month_end:
  "(\<exists>sim. run_simulation_engine exact 1000 1000 two_month_transactions two_month_start 30
            = Inr sim \<and>
      month (date (sim ! 0)) \<noteq> month (date (sim ! 1)) \<and>
      calculate_intelligent_transfer exact (end_balance (sim ! 0)) 1000
        (map end_balance (take (min 30 (30 - 0 - 1)) (drop (0 + 1) sim))) = 0) \<and>
   (\<exists>sim. generate_simulation_report exact 1000 1000 two_month_transactions two_month_start 30
            = Inr (sim, 100)) \<and>
   (\<exists>st. report_final_state exact 1000 1000 two_month_transactions two_month_start 30
            = Inr st \<and>
      transactions_df st =
        two_month_transactions @ [virtual_tx exact \<lparr>year = 2023, month = 3, day = 1\<rparr> 100])"
proof (intro conjI)
  define sim where
    "sim = map (projection_row exact 1000 two_month_transactions two_month_start 1000) [0..<30]"
  have run: "run_simulation_engine exact 1000 1000 two_month_transactions two_month_start 30
               = Inr sim"
    unfolding sim_def by (rule two_month_run)
  have "plus_days two_month_start 1 = \<lparr>year = 2023, month = 2, day = 1\<rparr>"
    by (rule two_month_february) simp_all
  then have months: "month (date (sim ! 0)) \<noteq> month (date (sim ! 1))"
    by (simp add: sim_def projection_row_fields) (simp add: two_month_start_def)
  have "end_balance (sim ! 0) = 1000"
    by (simp add: sim_def projection_row_fields del: running_balance.simps)
       (simp only: two_month_balance_1)
  then have "calculate_intelligent_transfer exact (end_balance (sim ! 0)) 1000
        (map end_balance (take (min 30 (30 - 0 - 1)) (drop (0 + 1) sim))) = 0"
    by (simp add: calculate_intelligent_transfer_def calculate_intelligent_transfer_counted_def)
  with run months
  show "\<exists>sim. run_simulation_engine exact 1000 1000 two_month_transactions two_month_start 30
            = Inr sim \<and>
      month (date (sim ! 0)) \<noteq> month (date (sim ! 1)) \<and>
      calculate_intelligent_transfer exact (end_balance (sim ! 0)) 1000
        (map end_balance (take (min 30 (30 - 0 - 1)) (drop (0 + 1) sim))) = 0"
    by blast
next
  show "\<exists>sim. generate_simulation_report exact 1000 1000 two_month_transactions two_month_start 30
            = Inr (sim, 100)"
    by (simp add: generate_simulation_report_def two_month_scan)
next
  show "\<exists>st. report_final_state exact 1000 1000 two_month_transactions two_month_start 30
            = Inr st \<and>
      transactions_df st =
        two_month_transactions @ [virtual_tx exact \<lparr>year = 2023, month = 3, day = 1\<rparr> 100]"
    by (simp add: two_month_scan)
qed

text \<open>
  C5. In one call of the orchestrator at most one \<^verbatim>\<open>Surplus Transfer\<close> row is added to the
  transactions and the engine is run at most twice, once at the start and at most once
  again. Either the first run of the engine raises, and the call raises with it before
  the scan; or the loop is left with the transactions as given and the engine run once, or
  with the transactions as given and one synthetic row at the end and the engine run
  twice. This holds in every arithmetic.
\<close>

theorem single_injection:
  "(run_simulation_engine A sb tb txs sd window_days = Inl OverflowError \<and>
    report_final_state A sb tb txs sd window_days = Inl OverflowError) \<or>
   (\<exists>st. report_final_state A sb tb txs sd window_days = Inr st \<and>
      engine_runs st \<le> 2 \<and>
      ((transactions_df st = txs \<and> engine_runs st = 1) \<or>
       (\<exists>d amt. num_lt A (num_zero A) amt \<and>
          transactions_df st = txs @ [virtual_tx A d amt] \<and> engine_runs st = 2)) \<and>
      length (filter (\<lambda>tx. description tx = ''Surplus Transfer'') (transactions_df st))
        \<le> length (filter (\<lambda>tx. description tx = ''Surplus Transfer'') txs) + 1)"
proof (cases "nat window_days = 0 \<or> year (plus_days sd (nat window_days - 1)) \<le> 9999")
  case False
  then have "run_simulation_engine A sb tb txs sd window_days = Inl OverflowError"
    by (simp add: run_closed)
  then show ?thesis by (simp add: report_final_state_def)
next
  case fits: True
  define sim where "sim = map (projection_row A tb txs sd sb) [0..<nat window_days]"
  define st0 where
    "st0 = \<lparr>sim_results_df = sim, recommended_transfer = num_zero A, transactions_df = txs,
            engine_runs = 1\<rparr>"
  have run: "run_simulation_engine A sb tb txs sd window_days = Inr sim"
    using fits by (simp add: run_closed sim_def)
  have fin: "report_final_state A sb tb txs sd window_days =
               scan_month_ends A sb tb sd window_days [0..<length sim - 1] st0"
    by (simp add: report_final_state_def run st0_def)
  from scan_injects_at_most_once [OF fits, of A sb tb "[0..<length sim - 1]" st0]
  obtain st where st: "scan_month_ends A sb tb sd window_days [0..<length sim - 1] st0 = Inr st"
    and cases: "(transactions_df st = transactions_df st0 \<and> engine_runs st = engine_runs st0) \<or>
                (\<exists>d amt. num_lt A (num_zero A) amt \<and>
                   transactions_df st = transactions_df st0 @ [virtual_tx A d amt] \<and>
                   engine_runs st = engine_runs st0 + 1)"
    by blast
  from cases
  have cases': "(transactions_df st = txs \<and> engine_runs st = 1) \<or>
                (\<exists>d amt. num_lt A (num_zero A) amt \<and>
                   transactions_df st = txs @ [virtual_tx A d amt] \<and> engine_runs st = 2)"
  proof (elim disjE exE conjE)
    assume "transactions_df st = transactions_df st0" and "engine_runs st = engine_runs st0"
    then have "transactions_df st = txs \<and> engine_runs st = 1" by (simp add: st0_def)
    then show ?thesis ..
  next
    fix d amt
    assume "num_lt A (num_zero A) amt"
      and "transactions_df st = transactions_df st0 @ [virtual_tx A d amt]"
      and "engine_runs st = engine_runs st0 + 1"
    then have "num_lt A (num_zero A) amt \<and>
               transactions_df st = txs @ [virtual_tx A d amt] \<and> engine_runs st = 2"
      by (simp add: st0_def)
    then show ?thesis by blast
  qed
  from cases' have runs: "engine_runs st \<le> 2" by auto
  from cases'
  have count:
    "length (filter (\<lambda>tx. description tx = ''Surplus Transfer'') (transactions_df st))
       \<le> length (filter (\<lambda>tx. description tx = ''Surplus Transfer'') txs) + 1"
    by auto
  from fin st have "report_final_state A sb tb txs sd window_days = Inr st" by simp
  with runs cases' count
  have "\<exists>st. report_final_state A sb tb txs sd window_days = Inr st \<and>
      engine_runs st \<le> 2 \<and>
      ((transactions_df st = txs \<and> engine_runs st = 1) \<or>
       (\<exists>d amt. num_lt A (num_zero A) amt \<and>
          transactions_df st = txs @ [virtual_tx A d amt] \<and> engine_runs st = 2)) \<and>
      length (filter (\<lambda>tx. description tx = ''Surplus Transfer'') (transactions_df st))
        \<le> length (filter (\<lambda>tx. description tx = ''Surplus Transfer'') txs) + 1"
    by blast
  then show ?thesis by (rule disjI2)
qed

text \<open>
  C6. The specification has the engine raise a validation error when \<open>window_days \<le> 0\<close>.
  The function checks nothing: with \<open>window_days = 0\<close> it returns the empty frame.
\<close>

theorem engine_zero_window_counterexample:
  "run_simulation_engine exact 2000 1000 sample_sim_transactions (jan_2024 1) 0 = Inr []"
  by (simp add: run_closed)

text \<open>
  C6, as amended. With \<open>window_days \<le> 0\<close> the engine computes no day, raises nothing and
  returns the empty frame, whatever the other arguments.
\<close>

theorem engine_nonpositive_window:
  assumes "window_days \<le> 0"
  shows "run_simulation_engine A sb tb txs sd window_days = Inr []"
  using assms by (simp add: run_closed)

theorem engine_nonpositive_window_witness:
  "(- 5 :: int) \<le> 0 \<and>
   run_simulation_engine exact 2000 1000 sample_sim_transactions (jan_2024 1) (- 5) = Inr []"
  using engine_nonpositive_window [of "- 5" exact 2000 1000 sample_sim_transactions "jan_2024 1"]
  by simp




text \<open>
  C8. The specification has every positive \<open>window_days\<close> give a result of \<open>window_days\<close>
  rows. The function raises \<^verbatim>\<open>OverflowError\<close> and returns nothing when a day of the window
  is past 31 December 9999: a window of two days from that date has no result.
\<close>

theorem last_date_overflow_counterexample:
  "run_simulation_engine exact 0 0 [] last_date 2 = Inl OverflowError"
  by (simp add: run_closed last_date_def next_date_def days_in_month_def)

text \<open>
  C8, as amended. With a positive \<open>window_days\<close>: when the last day of the window,
  \<open>window_days - 1\<close> days after the start date, is past 31 December 9999, the engine raises
  \<^verbatim>\<open>OverflowError\<close>; otherwise it returns a result of exactly \<open>window_days\<close> rows, row \<open>i\<close>
  is dated \<open>i\<close> days after the start date, and each row is dated the day after the row
  before it. This holds in every arithmetic.
\<close>

theorem window_contiguous:
  assumes "0 < window_days"
  shows "(date_add_days sd (nat (window_days - 1)) = Inl OverflowError \<longrightarrow>
            run_simulation_engine A sb tb txs sd window_days = Inl OverflowError) \<and>
         (\<forall>last. date_add_days sd (nat (window_days - 1)) = Inr last \<longrightarrow>
            (\<exists>res. run_simulation_engine A sb tb txs sd window_days = Inr res \<and>
               int (length res) = window_days \<and>
               (\<forall>i::nat. int i \<le> window_days - 1 \<longrightarrow>
                  date_add_days sd i = Inr (date (res ! i))) \<and>
               (\<forall>i::nat. int i \<le> window_days - 2 \<longrightarrow>
                  date (res ! (i + 1)) = next_date (date (res ! i)))))"
proof (intro conjI allI impI)
  assume "date_add_days sd (nat (window_days - 1)) = Inl OverflowError"
  then have "\<not> year (plus_days sd (nat (window_days - 1))) \<le> 9999"
    by (simp add: date_add_days_Inl)
  moreover from assms have "nat window_days - 1 = nat (window_days - 1)" by simp
  ultimately show "run_simulation_engine A sb tb txs sd window_days = Inl OverflowError"
    using assms by (simp add: run_closed)
next
  fix last
  assume fits: "date_add_days sd (nat (window_days - 1)) = Inr last"
  define res where "res = map (projection_row A tb txs sd sb) [0..<nat window_days]"
  from assms have eq: "nat window_days - Suc 0 = nat (window_days - 1)" by simp
  from fits have "year (plus_days sd (nat (window_days - 1))) \<le> 9999"
    by (simp add: date_add_days_Inr)
  then have run: "run_simulation_engine A sb tb txs sd window_days = Inr res"
    by (simp add: run_closed eq res_def)
  have len: "int (length res) = window_days"
    using assms by (simp add: res_def)
  have dates: "\<forall>i::nat. int i \<le> window_days - 1 \<longrightarrow> date_add_days sd i = Inr (date (res ! i))"
  proof (intro allI impI)
    fix i :: nat
    assume "int i \<le> window_days - 1"
    then have i: "i \<le> nat (window_days - 1)" and i': "i < nat window_days" by linarith+
    from date_add_days_earlier [OF fits i] i'
    show "date_add_days sd i = Inr (date (res ! i))"
      by (simp add: res_def projection_row_fields)
  qed
  have steps: "\<forall>i::nat. int i \<le> window_days - 2 \<longrightarrow>
                 date (res ! (i + 1)) = next_date (date (res ! i))"
  proof (intro allI impI)
    fix i :: nat
    assume "int i \<le> window_days - 2"
    then have "i < nat window_days" and "Suc i < nat window_days" by linarith+
    then show "date (res ! (i + 1)) = next_date (date (res ! i))"
      by (simp add: res_def projection_row_fields)
  qed
  from run len dates steps
  show "\<exists>res. run_simulation_engine A sb tb txs sd window_days = Inr res \<and>
               int (length res) = window_days \<and>
               (\<forall>i::nat. int i \<le> window_days - 1 \<longrightarrow>
                  date_add_days sd i = Inr (date (res ! i))) \<and>
               (\<forall>i::nat. int i \<le> window_days - 2 \<longrightarrow>
                  date (res ! (i + 1)) = next_date (date (res ! i)))"
    by blast
qed

theorem window_contiguous_witness:
  "(0::int) < 3 \<and>
   date_add_days (jan_2024 1) (nat (3 - 1)) = Inr (jan_2024 3) \<and>
   (\<exists>res. run_simulation_engine exact 2000 1000 sample_sim_transactions (jan_2024 1) 3 = Inr res \<and>
      int (length res) = 3 \<and>
      date_add_days (jan_2024 1) 2 = Inr (date (res ! 2)) \<and>
      date (res ! 2) = jan_2024 3)"
proof -
  have pos: "(0::int) < 3" by simp
  have last: "date_add_days (jan_2024 1) (nat (3 - 1)) = Inr (jan_2024 3)"
    by (simp add: date_add_days_def plus_days_numeral jan_2024_def next_date_def
          days_in_month_def)
  from window_contiguous [OF pos, of "jan_2024 1" exact 2000 1000 sample_sim_transactions] last
  obtain res
    where run: "run_simulation_engine exact 2000 1000 sample_sim_transactions (jan_2024 1) 3
                  = Inr res"
      and len: "int (length res) = 3"
      and dates: "\<forall>i::nat. int i \<le> 3 - 1 \<longrightarrow> date_add_days (jan_2024 1) i = Inr (date (res ! i))"
    by blast
  from dates have d2: "date_add_days (jan_2024 1) 2 = Inr (date (res ! 2))" by simp
  with last have "date (res ! 2) = jan_2024 3" by simp
  with pos last run len d2 show ?thesis by blast
qed

text \<open>
  C9. Neither function writes into the caller's frame of transactions: after a call of the
  engine, and after a call of the orchestrator, the object at the caller's address holds
  the rows it held before, whatever the column conversions compute and whether the call
  returns or raises; every frame that existed before the call of the orchestrator is
  unchanged, so the synthetic row is in a frame created during the call.
\<close>

theorem caller_frame_unchanged:
  assumes "a < length s"
  shows "fst (run_simulation_engine_on A s sb tb a sd window_days) ! a = s ! a \<and>
         fst (generate_simulation_report_on A to_datetime to_numeric s sb tb a sd window_days) ! a
           = s ! a \<and>
         take (length s)
           (fst (generate_simulation_report_on A to_datetime to_numeric s sb tb a sd
                   window_days))
           = s"
proof -
  have eng: "fst (run_simulation_engine_on A s sb tb a sd window_days) ! a = s ! a"
    using assms by (simp add: run_simulation_engine_on_def df_copy_def nth_append)
  define s3 where "s3 = s @ [to_numeric (to_datetime (s ! a))]"
  define s4 where "s4 = fst (run_simulation_engine_on A s3 sb tb (length s) sd window_days)"
  have "take (length s3) s4 = s3"
    unfolding s4_def by (rule engine_on_frame)
  moreover have "take (length s) s3 = s" by (simp add: s3_def)
  ultimately have t4: "take (length s) s4 = s"
    by (rule take_take_frame) (simp add: s3_def)
  have len4: "length s \<le> length s4"
    using engine_on_length [of s3 A sb tb "length s" sd window_days] by (simp add: s4_def s3_def)
  have pre: "take (length s)
          (fst (generate_simulation_report_on A to_datetime to_numeric s sb tb a sd window_days))
          = s"
  proof (cases "snd (run_simulation_engine_on A s3 sb tb (length s) sd window_days)")
    case (Inl e)
    then have "fst (generate_simulation_report_on A to_datetime to_numeric s sb tb a sd
                      window_days) = s4"
      by (simp add: generate_simulation_report_on_def df_copy_def df_set_column_def Let_def
            split_beta s3_def s4_def)
    with t4 show ?thesis by simp
  next
    case (Inr sim)
    define st0 where
      "st0 = \<lparr>frames = s4, transactions_ref = length s, results = sim,
              transfer = num_zero A, raised = None\<rparr>"
    from Inr
    have rep: "fst (generate_simulation_report_on A to_datetime to_numeric s sb tb a sd
                      window_days)
               = frames (scan_month_ends_on A sb tb sd window_days [0..<length sim - 1] st0)"
      by (simp add: generate_simulation_report_on_def df_copy_def df_set_column_def Let_def
            split_beta s3_def s4_def st0_def)
    have "take (length (frames st0))
            (frames (scan_month_ends_on A sb tb sd window_days [0..<length sim - 1] st0))
            = frames st0"
      by (rule scan_on_frame)
    then have "take (length s4)
            (frames (scan_month_ends_on A sb tb sd window_days [0..<length sim - 1] st0)) = s4"
      by (simp add: st0_def)
    from this t4 len4
    have "take (length s)
            (frames (scan_month_ends_on A sb tb sd window_days [0..<length sim - 1] st0)) = s"
      by (rule take_take_frame)
    then show ?thesis by (simp only: rep)
  qed
  from pre assms
  have "fst (generate_simulation_report_on A to_datetime to_numeric s sb tb a sd window_days) ! a
          = s ! a"
    by (metis nth_take)
  with eng pre show ?thesis by simp
qed

theorem caller_frame_unchanged_witness:
  "0 < length [two_month_transactions] \<and>
   fst (run_simulation_engine_on exact [two_month_transactions] 1000 1000 0 two_month_start 30)
     ! 0 = two_month_transactions \<and>
   fst (generate_simulation_report_on exact (map (\<lambda>tx. tx\<lparr>forecast := ''0''\<rparr>))
          (map (\<lambda>tx. tx\<lparr>amount := 0\<rparr>)) [two_month_transactions] 1000 1000 0
          two_month_start 30) ! 0
     = two_month_transactions"
proof -
  have addr: "0 < length [two_month_transactions]" by simp
  from caller_frame_unchanged [OF addr] addr show ?thesis by simp
qed

text \<open>
  C10. With \<open>month_end_balance \<le> target_balance\<close> the advisor returns \<open>0\<close> and has not
  evaluated \<^verbatim>\<open>future_30_day_balances.min()\<close>, whatever the future balances are, the empty
  series included. The minimum is evaluated, once, exactly when the surplus is positive;
  in any arithmetic, exactly when the test \<^verbatim>\<open>surplus <= 0\<close> of line 109 fails.
\<close>

theorem advisor_no_surplus:
  assumes "month_end_balance \<le> target_balance"
  shows "calculate_intelligent_transfer_counted exact month_end_balance target_balance
           future_balances = (0, 0) \<and>
         calculate_intelligent_transfer_counted exact month_end_balance target_balance []
           = (0, 0) \<and>
         calculate_intelligent_transfer exact month_end_balance target_balance future_balances
           = 0 \<and>
         snd (calculate_intelligent_transfer_counted exact m t fb) =
           (if 0 < m - t then 1 else 0) \<and>
         snd (calculate_intelligent_transfer_counted A m' t' fb') =
           (if num_le A (num_sub A m' t') (num_zero A) then 0 else 1)"
proof (intro conjI)
  from assms
  show "calculate_intelligent_transfer_counted exact month_end_balance target_balance
          future_balances = (0, 0)"
    by (simp add: calculate_intelligent_transfer_counted_def)
  from assms
  show "calculate_intelligent_transfer_counted exact month_end_balance target_balance []
          = (0, 0)"
    by (simp add: calculate_intelligent_transfer_counted_def)
  from assms
  show "calculate_intelligent_transfer exact month_end_balance target_balance future_balances
          = 0"
    by (simp add: calculate_intelligent_transfer_def calculate_intelligent_transfer_counted_def)
  show "snd (calculate_intelligent_transfer_counted exact m t fb) = (if 0 < m - t then 1 else 0)"
    by (simp add: advisor_count not_le [symmetric])
  show "snd (calculate_intelligent_transfer_counted A m' t' fb') =
           (if num_le A (num_sub A m' t') (num_zero A) then 0 else 1)"
    by (rule advisor_count)
qed

theorem advisor_no_surplus_witness:
  "(2000::rat) \<le> 2500 \<and>
   calculate_intelligent_transfer_counted exact 2000 2500 [1500, 1000, 500] = (0, 0) \<and>
   calculate_intelligent_transfer_counted exact 2000 2500 [] = (0, 0) \<and>
   snd (calculate_intelligent_transfer_counted exact 5000 2500 [4000, 1500]) = 1"
  using advisor_no_surplus
          [of 2000 2500 "[1500, 1000, 500]" 5000 2500 "[4000, 1500]" exact 0 0 "[]"]
  by simp

end
